theory Spec2Isabelle
  imports Complex_Main
begin

section \<open>Values and exceptions\<close>

text \<open>
  The plan handled by \<^verbatim>\<open>backend/app.py\<close> is whatever \<^verbatim>\<open>json.loads\<close> produced: a
  Python \<^verbatim>\<open>dict\<close>, \<^verbatim>\<open>list\<close>, \<^verbatim>\<open>str\<close>, \<^verbatim>\<open>int\<close>, \<^verbatim>\<open>float\<close>, \<^verbatim>\<open>bool\<close> or
  \<^verbatim>\<open>None\<close>. A \<^verbatim>\<open>dict\<close> is an association list in insertion order (its keys are
  distinct in Python; lookup takes the first entry). A Python string is a list of
  characters, a character being a code point below 256. The float values \<^verbatim>\<open>nan\<close> and
  \<^verbatim>\<open>inf\<close> have no counterpart in \<^typ>\<open>real\<close>; the code treats them like every other
  non-zero float.
\<close>

datatype json =
    JNull
  | JBool bool
  | JInt int
  | JFloat real
  | JString string
  | JList "json list"
  | JObject "(string \<times> json) list"

text \<open>
  Exceptions are values. \<open>AttributeError\<close> and \<open>TypeError\<close> are the two the normalizer
  can raise, \<open>KeyError\<close> is a failed subscript; \<open>RenderError\<close> stands for whatever the
  document renderer raises.
\<close>

datatype error = AttributeError | TypeError | KeyError | RenderError string

definition bnd :: "error + 'a \<Rightarrow> ('a \<Rightarrow> error + 'b) \<Rightarrow> error + 'b" where
  "bnd r f = (case r of Inl e \<Rightarrow> Inl e | Inr v \<Rightarrow> f v)"

section \<open>Python primitives used by the normalizer\<close>

text \<open>Truth value of an object, as \<^verbatim>\<open>or\<close>, \<^verbatim>\<open>if\<close> and \<^verbatim>\<open>not\<close> test it.\<close>

fun truthy :: "json \<Rightarrow> bool" where
  "truthy JNull = False"
| "truthy (JBool b) = b"
| "truthy (JInt i) = (i \<noteq> 0)"
| "truthy (JFloat r) = (r \<noteq> 0)"
| "truthy (JString s) = (s \<noteq> [])"
| "truthy (JList xs) = (xs \<noteq> [])"
| "truthy (JObject kvs) = (kvs \<noteq> [])"

text \<open>\<^verbatim>\<open>x or d\<close>\<close>

definition py_or :: "json \<Rightarrow> json \<Rightarrow> json" where
  "py_or x d = (if truthy x then x else d)"

text \<open>
  \<^verbatim>\<open>x.get(k, d)\<close>: only a \<^verbatim>\<open>dict\<close> has the method; \<^verbatim>\<open>x.get(k)\<close> is
  \<^verbatim>\<open>x.get(k, None)\<close>.
\<close>

fun dict_get :: "json \<Rightarrow> string \<Rightarrow> json \<Rightarrow> error + json" where
  "dict_get (JObject kvs) k d = Inr (case map_of kvs k of None \<Rightarrow> d | Some v \<Rightarrow> v)"
| "dict_get _ k d = Inl AttributeError"

text \<open>
  \<^verbatim>\<open>for x in v\<close>: a list yields its elements, a string its characters as strings of
  length one, a \<^verbatim>\<open>dict\<close> its keys; nothing else is iterable.
\<close>

fun py_iter :: "json \<Rightarrow> error + json list" where
  "py_iter (JList xs) = Inr xs"
| "py_iter (JString s) = Inr (map (\<lambda>c. JString [c]) s)"
| "py_iter (JObject kvs) = Inr (map (\<lambda>kv. JString (fst kv)) kvs)"
| "py_iter _ = Inl TypeError"

text \<open>
  Whitespace as \<^verbatim>\<open>str.isspace\<close> sees it, for code points below 256:
  9 to 13, 28 to 32, 133 and 160.
\<close>

definition is_space :: "char \<Rightarrow> bool" where
  "is_space c = (let n = (of_char c :: nat)
                 in (9 \<le> n \<and> n \<le> 13) \<or> (28 \<le> n \<and> n \<le> 32) \<or> n = 133 \<or> n = 160)"

text \<open>\<^verbatim>\<open>s.strip()\<close> on a string.\<close>

definition strip :: "string \<Rightarrow> string" where
  "strip s = rev (dropWhile is_space (rev (dropWhile is_space s)))"

text \<open>\<^verbatim>\<open>b.strip()\<close> on any object: only \<^verbatim>\<open>str\<close> has the method.\<close>

fun py_strip :: "json \<Rightarrow> error + json" where
  "py_strip (JString s) = Inr (JString (strip s))"
| "py_strip _ = Inl AttributeError"

text \<open>
  Truth value of \<^verbatim>\<open>str(b).strip()\<close>. For a string, \<^verbatim>\<open>str(b)\<close> is \<^verbatim>\<open>b\<close>. For every
  other value \<^verbatim>\<open>str(b)\<close> is its printed form (\<^verbatim>\<open>None\<close>, \<^verbatim>\<open>True\<close>, \<^verbatim>\<open>False\<close>, the
  digits of a number, a bracketed list or dict), which begins and ends with a
  character that is not whitespace, so that the stripped text is not empty.
\<close>

fun str_strip_truthy :: "json \<Rightarrow> bool" where
  "str_strip_truthy (JString s) = (strip s \<noteq> [])"
| "str_strip_truthy _ = True"

text \<open>
  The comprehension \<^verbatim>\<open>[b.strip() for b in xs if str(b).strip()]\<close>, evaluated left to
  right; the first \<^verbatim>\<open>b.strip()\<close> that raises ends it.
\<close>

fun strip_entries :: "json list \<Rightarrow> error + json list" where
  "strip_entries [] = Inr []"
| "strip_entries (b # bs) =
     (if str_strip_truthy b
      then bnd (py_strip b) (\<lambda>v. bnd (strip_entries bs) (\<lambda>vs. Inr (v # vs)))
      else strip_entries bs)"

section \<open>The plan normalizer\<close>

text \<open>One round of the loop over \<^verbatim>\<open>plan.get("sections", [])\<close>: the section appended.\<close>

definition normalize_section :: "json \<Rightarrow> error + json" where
  "normalize_section section =
     bnd (dict_get section ''heading'' JNull) (\<lambda>h.
     let heading = py_or h (JString ''Section'') in
     bnd (dict_get section ''bullets'' (JList [])) (\<lambda>bv.
     bnd (py_iter bv) (\<lambda>bs.
     bnd (strip_entries bs) (\<lambda>bullets.
     Inr (JObject [(''heading'', heading),
                   (''bullets'', py_or (JList bullets) (JList [JString ''Details pending.'']))])))))"

fun normalize_sections :: "json list \<Rightarrow> error + json list" where
  "normalize_sections [] = Inr []"
| "normalize_sections (s # ss) =
     bnd (normalize_section s) (\<lambda>v. bnd (normalize_sections ss) (\<lambda>vs. Inr (v # vs)))"

definition default_title :: json where
  "default_title = JString ''ASTHRA Project Documentation''"

definition default_summary :: "string \<Rightarrow> json" where
  "default_summary fallback_message = JString (''Generated documentation for: '' @ fallback_message)"

definition default_claims :: json where
  "default_claims = JList [JString ''Automated documentation generation based on user input.'']"

definition default_note :: json where
  "default_note = JString ''Generated via ASTHRA.''"

definition normalize_plan :: "json \<Rightarrow> string \<Rightarrow> error + json" where
  "normalize_plan plan fallback_message =
     bnd (dict_get plan ''title'' JNull) (\<lambda>t.
     let title = py_or t default_title in
     bnd (dict_get plan ''summary'' JNull) (\<lambda>s.
     let summary = py_or s (default_summary fallback_message) in
     bnd (dict_get plan ''sections'' (JList [])) (\<lambda>sv.
     bnd (py_iter sv) (\<lambda>secs.
     bnd (normalize_sections secs) (\<lambda>appended.
     let sections = (if appended = []
                     then [JObject [(''heading'', JString ''Overview''),
                                    (''bullets'', JList [summary])]]
                     else appended) in
     bnd (dict_get plan ''claims'' (JList [])) (\<lambda>cv.
     bnd (py_iter cv) (\<lambda>cs.
     bnd (strip_entries cs) (\<lambda>cleaned.
     let claims = py_or (JList cleaned) default_claims in
     bnd (dict_get plan ''certificate_note'' JNull) (\<lambda>n.
     let certificate_note = py_or n default_note in
     Inr (JObject [(''title'', title),
                   (''summary'', summary),
                   (''sections'', JList sections),
                   (''claims'', claims),
                   (''certificate_note'', certificate_note)]))))))))))"

section \<open>The plan fetcher\<close>

text \<open>
  The module globals set once by \<^verbatim>\<open>_init_ai_provider\<close>. \<open>client\<close>, \<open>bedrock_client\<close> and
  \<open>genai\<close> say whether the object is there (not \<^verbatim>\<open>None\<close>).
\<close>

record config =
  AI_ENABLED :: bool
  AI_PROVIDER :: string
  AI_MODEL :: string
  AI_STATUS_MSG :: string
  client :: bool
  bedrock_client :: bool
  genai :: bool

text \<open>
  What lies outside the program. A provider call takes the model name and the prompt
  and gives \<open>Inr raw_content\<close>, the text taken out of the provider's response envelope,
  or \<open>Inl msg\<close> when anything on the way raised an \<^verbatim>\<open>Exception\<close> whose \<^verbatim>\<open>str\<close> is
  \<open>msg\<close> (network error, non-2xx response, an envelope of another shape).
  \<open>json_loads\<close> is \<^verbatim>\<open>json.loads\<close>, with \<open>Inl msg\<close> for the exception it raises on
  malformed text. \<open>render_artifacts\<close> is the four \<^verbatim>\<open>_build_*\<close> calls of the handler,
  with \<open>Some e\<close> when one of them raises.
\<close>

record env =
  chat_completions_create :: "string \<Rightarrow> string \<Rightarrow> string \<Rightarrow> string + string"
  generate_content :: "string \<Rightarrow> string \<Rightarrow> string + string"
  invoke_model :: "string \<Rightarrow> string \<Rightarrow> string + string"
  json_loads :: "string \<Rightarrow> string + json"
  render_artifacts :: "json \<Rightarrow> string \<Rightarrow> error option"

datatype event = FetcherCalled string | ProviderCalled string | RendererCalled

definition system_prompt :: string where
  "system_prompt =
     ''You are an assistant that drafts professional documentation. '' @
     ''Return a concise JSON object with: '' @
     ''`title` (string), `summary` (2-3 sentence string), '' @
     ''`sections` (list of {heading, bullets[]}), '' @
     ''`claims` (patent-style bullet points), '' @
     ''`certificate_note` (short phrase for certificates). '' @
     ''Use bullet-ready text, no markdown. Respond with JSON only.''"

definition newline :: string where
  "newline = [CHR 0x0A]"

definition apostrophe :: string where
  "apostrophe = [CHR 0x27]"

text \<open>\<^verbatim>\<open>return json.loads(raw_content), None\<close> after a provider call.\<close>

definition parse_reply :: "env \<Rightarrow> string + string \<Rightarrow> string + (json \<times> string option)" where
  "parse_reply w r =
     (case r of
        Inl exc \<Rightarrow> Inl exc
      | Inr raw_content \<Rightarrow>
          (case json_loads w raw_content of
             Inl exc \<Rightarrow> Inl exc
           | Inr v \<Rightarrow> Inr (v, None)))"

text \<open>
  The body of the \<^verbatim>\<open>try\<close> of \<^verbatim>\<open>_call_ai_plan\<close>: \<open>Inl msg\<close> is an exception raised in it,
  \<open>msg\<close> its \<^verbatim>\<open>str\<close>. Python's \<^verbatim>\<open>None\<close> is \<open>JNull\<close>. With the \<^verbatim>\<open>genai\<close> module missing,
  \<^verbatim>\<open>genai.GenerativeModel\<close> raises an \<^verbatim>\<open>AttributeError\<close>.
\<close>

definition call_ai_plan_try ::
  "config \<Rightarrow> env \<Rightarrow> string \<Rightarrow> (string + (json \<times> string option)) \<times> event list" where
  "call_ai_plan_try cfg w message =
     (if (AI_PROVIDER cfg = ''openai'' \<or> AI_PROVIDER cfg = ''azure'') \<and> client cfg then
        (parse_reply w (chat_completions_create w (AI_MODEL cfg) system_prompt message),
         [ProviderCalled (AI_PROVIDER cfg)])
      else if AI_PROVIDER cfg = ''gemini'' then
        (if genai cfg then
           (parse_reply w (generate_content w (AI_MODEL cfg)
              (system_prompt @ newline @ ''User request:'' @ newline @ message @ newline @
               ''Reply with JSON only.'')),
            [ProviderCalled ''gemini''])
         else (Inl (apostrophe @ ''NoneType'' @ apostrophe @ '' object has no attribute '' @
                    apostrophe @ ''GenerativeModel'' @ apostrophe), []))
      else if AI_PROVIDER cfg = ''bedrock'' \<and> bedrock_client cfg then
        (parse_reply w (invoke_model w (AI_MODEL cfg)
           (system_prompt @ newline @ ''User request:'' @ newline @ message)),
         [ProviderCalled ''bedrock''])
      else
        (Inr (JNull, Some (''Unsupported provider or client not initialized: '' @ AI_PROVIDER cfg)),
         []))"

text \<open>
  \<^verbatim>\<open>_call_ai_plan\<close>: the result, \<open>Inl\<close> for an exception that leaves the function, and
  the provider calls made.
\<close>

definition call_ai_plan ::
  "config \<Rightarrow> env \<Rightarrow> string \<Rightarrow> (error + (json \<times> string option)) \<times> event list" where
  "call_ai_plan cfg w message =
     (if \<not> AI_ENABLED cfg then (Inr (JNull, Some (AI_STATUS_MSG cfg)), [])
      else
        (case call_ai_plan_try cfg w message of
           (Inl exc, evs) \<Rightarrow> (Inr (JNull, Some exc), evs)
         | (Inr r, evs) \<Rightarrow> (Inr r, evs)))"

section \<open>The request handler\<close>

text \<open>
  \<^verbatim>\<open>_fallback_plan\<close>. The upload is \<open>Some filename\<close> or \<open>None\<close>; only its file name is
  read.
\<close>

definition fallback_plan :: "string \<Rightarrow> string option \<Rightarrow> json" where
  "fallback_plan message file =
     (let file_note = (case file of
                         Some filename \<Rightarrow> ''Uploaded file: '' @ filename
                       | None \<Rightarrow> ''No upload provided.'')
      in JObject
        [(''title'', JString ''ASTHRA Project Documentation''),
         (''summary'', JString (''Generated documentation for: '' @ message)),
         (''sections'', JList
            [JObject
               [(''heading'', JString ''Overview''),
                (''bullets'', JList
                   [JString ''Project statement received and logged.'',
                    JString ''ASTHRA generated offline demo content.'',
                    JString file_note])],
             JObject
               [(''heading'', JString ''Objectives''),
                (''bullets'', JList
                   [JString ''Demonstrate PDF, PPT, patent draft, and certificates.'',
                    JString ''Content is sample-only when AI is disabled.''])],
             JObject
               [(''heading'', JString ''Next Steps''),
                (''bullets'', JList
                   [JString ''Enable AI (set OPENAI_API_KEY) for richer drafts.'',
                    JString ''Refine requirements and rerun generation.''])]]),
         (''claims'', JList
            [JString ''A system that generates multiple documentation artifacts from one input.'',
             JString ''Automated slide and patent-style drafting based on project descriptions.'']),
         (''certificate_note'', JString ''Demo certificate generated in offline mode.'')])"

text \<open>\<^verbatim>\<open>x[k]\<close> with a string key.\<close>

fun subscript :: "json \<Rightarrow> string \<Rightarrow> error + json" where
  "subscript (JObject kvs) k = (case map_of kvs k of None \<Rightarrow> Inl KeyError | Some v \<Rightarrow> Inr v)"
| "subscript _ k = Inl TypeError"

text \<open>\<^verbatim>\<open>sep.join(xs)\<close>: every item has to be a string.\<close>

fun py_join :: "string \<Rightarrow> json list \<Rightarrow> error + string" where
  "py_join sep [] = Inr []"
| "py_join sep [JString s] = Inr s"
| "py_join sep (JString s # x # xs) = bnd (py_join sep (x # xs)) (\<lambda>r. Inr (s @ sep @ r))"
| "py_join sep (_ # xs) = Inl TypeError"

text \<open>Truth value of \<^verbatim>\<open>ai_error\<close>, a string or \<^verbatim>\<open>None\<close>, and its text in an f-string.\<close>

fun error_truthy :: "string option \<Rightarrow> bool" where
  "error_truthy None = False"
| "error_truthy (Some e) = (e \<noteq> [])"

fun error_text :: "string option \<Rightarrow> string" where
  "error_text None = ''None''"
| "error_text (Some e) = e"

text \<open>
  The first step of \<^verbatim>\<open>chat\<close>: the plan resolved, with \<^verbatim>\<open>ai_used\<close> and \<^verbatim>\<open>ai_error\<close>, and
  the calls made.
\<close>

definition chat_resolve ::
  "config \<Rightarrow> env \<Rightarrow> string \<Rightarrow> string option \<Rightarrow> string
     \<Rightarrow> (error + (json \<times> bool \<times> string option)) \<times> event list" where
  "chat_resolve cfg w message file mode =
     (let plan = fallback_plan message file in
      if mode = ''hybrid'' then
        (case call_ai_plan cfg w message of
           (Inl e, evs) \<Rightarrow> (Inl e, FetcherCalled message # evs)
         | (Inr (ai_plan, ai_error), evs) \<Rightarrow>
             (if truthy ai_plan
              then (bnd (normalize_plan ai_plan message) (\<lambda>p. Inr (p, True, ai_error)),
                    FetcherCalled message # evs)
              else (Inr (plan, False, ai_error), FetcherCalled message # evs)))
      else (Inr (plan, False, None), []))"

definition reply_lines :: "json \<Rightarrow> bool \<Rightarrow> string option \<Rightarrow> error + json list" where
  "reply_lines plan ai_used ai_error =
     bnd (subscript plan ''summary'') (\<lambda>summary.
     Inr ([summary] @
          (if error_truthy ai_error \<and> \<not> ai_used
           then [JString (''AI fallback reason: '' @ error_text ai_error)]
           else if error_truthy ai_error
           then [JString (''AI warning: '' @ error_text ai_error)]
           else [])))"

definition file_urls :: "(string \<times> string) list" where
  "file_urls =
     [(''report'', ''http://localhost:8000/files/report.pdf''),
      (''ppt'', ''http://localhost:8000/files/slides.pptx''),
      (''patent'', ''http://localhost:8000/files/patent.pdf''),
      (''certificates'', ''http://localhost:8000/files/certificates.zip'')]"

record ai_block =
  enabled :: bool
  provider :: string
  model :: string
  status :: string
  mode_requested :: string
  mode_used :: string
  error :: "string option"

record response =
  reply :: string
  files :: "(string \<times> string) list"
  ai :: ai_block

text \<open>The last step of \<^verbatim>\<open>chat\<close>: the reply text and the JSON response.\<close>

definition chat_respond ::
  "config \<Rightarrow> string \<Rightarrow> json \<Rightarrow> bool \<Rightarrow> string option \<Rightarrow> error + response" where
  "chat_respond cfg mode plan ai_used ai_error =
     bnd (reply_lines plan ai_used ai_error) (\<lambda>ls.
     bnd (py_join newline ls) (\<lambda>text.
     Inr \<lparr>reply = text,
          files = file_urls,
          ai = \<lparr>enabled = AI_ENABLED cfg,
                provider = AI_PROVIDER cfg,
                model = AI_MODEL cfg,
                status = AI_STATUS_MSG cfg,
                mode_requested = mode,
                mode_used = (if ai_used then ''hybrid'' else ''static''),
                error = ai_error\<rparr>\<rparr>))"

text \<open>\<^verbatim>\<open>chat\<close>: resolve the plan, render the four artifacts, build the response.\<close>

definition chat ::
  "config \<Rightarrow> env \<Rightarrow> string \<Rightarrow> string option \<Rightarrow> string \<Rightarrow> (error + response) \<times> event list" where
  "chat cfg w message file mode =
     (case chat_resolve cfg w message file mode of
        (Inl e, evs) \<Rightarrow> (Inl e, evs)
      | (Inr (plan, ai_used, ai_error), evs) \<Rightarrow>
          (case render_artifacts w plan message of
             Some e \<Rightarrow> (Inl e, evs @ [RendererCalled])
           | None \<Rightarrow> (chat_respond cfg mode plan ai_used ai_error, evs @ [RendererCalled])))"

section \<open>Shapes of inputs and the plan invariants\<close>

text \<open>
  Well-shaped inputs, a plan of the expected types with parts left out: a \<^verbatim>\<open>dict\<close> whose
  \<^verbatim>\<open>title\<close>, \<^verbatim>\<open>summary\<close> and \<^verbatim>\<open>certificate_note\<close> are each missing, \<^verbatim>\<open>None\<close> or a
  string (possibly empty), whose \<^verbatim>\<open>sections\<close> is missing or a list of \<^verbatim>\<open>dict\<close>s, each
  with \<^verbatim>\<open>bullets\<close> missing or a list of strings, and whose \<^verbatim>\<open>claims\<close> is missing or a
  list of strings.
\<close>

fun is_text :: "json \<Rightarrow> bool" where
  "is_text (JString s) = True"
| "is_text _ = False"

fun text_list :: "json \<Rightarrow> bool" where
  "text_list (JList xs) = list_all is_text xs"
| "text_list _ = False"

fun text_or_missing :: "json option \<Rightarrow> bool" where
  "text_or_missing None = True"
| "text_or_missing (Some JNull) = True"
| "text_or_missing (Some (JString s)) = True"
| "text_or_missing (Some _) = False"

fun shaped_section :: "json \<Rightarrow> bool" where
  "shaped_section (JObject kvs) =
     (case map_of kvs ''bullets'' of None \<Rightarrow> True | Some v \<Rightarrow> text_list v)"
| "shaped_section _ = False"

fun shaped_sections :: "json option \<Rightarrow> bool" where
  "shaped_sections None = True"
| "shaped_sections (Some (JList ss)) = list_all shaped_section ss"
| "shaped_sections (Some _) = False"

fun shaped_claims :: "json option \<Rightarrow> bool" where
  "shaped_claims None = True"
| "shaped_claims (Some v) = text_list v"

fun shaped_plan :: "json \<Rightarrow> bool" where
  "shaped_plan (JObject kvs) =
     (text_or_missing (map_of kvs ''title'') \<and>
      text_or_missing (map_of kvs ''summary'') \<and>
      text_or_missing (map_of kvs ''certificate_note'') \<and>
      shaped_sections (map_of kvs ''sections'') \<and>
      shaped_claims (map_of kvs ''claims''))"
| "shaped_plan _ = False"

text \<open>
  The whole of what the normalizer tolerates is wider, since \<^verbatim>\<open>or\<close> replaces every
  empty value and a \<^verbatim>\<open>for\<close> loop visits the characters of a string and the keys of a
  \<^verbatim>\<open>dict\<close>: \<^verbatim>\<open>title\<close>, \<^verbatim>\<open>summary\<close> and \<^verbatim>\<open>certificate_note\<close> may be missing, empty
  (\<^verbatim>\<open>None\<close>, \<^verbatim>\<open>False\<close>, zero, an empty string, list or \<^verbatim>\<open>dict\<close>) or a string;
  \<^verbatim>\<open>bullets\<close> and \<^verbatim>\<open>claims\<close> may be missing, a list of strings, a string or a
  \<^verbatim>\<open>dict\<close>; \<^verbatim>\<open>sections\<close> may be missing, a list of \<^verbatim>\<open>dict\<close>s, an empty string or an
  empty \<^verbatim>\<open>dict\<close>.
\<close>

fun is_object :: "json \<Rightarrow> bool" where
  "is_object (JObject kvs) = True"
| "is_object _ = False"

fun empty_value :: "json \<Rightarrow> bool" where
  "empty_value JNull = True"
| "empty_value (JBool b) = (\<not> b)"
| "empty_value (JInt i) = (i = 0)"
| "empty_value (JFloat r) = (r = 0)"
| "empty_value (JString s) = (s = [])"
| "empty_value (JList xs) = (xs = [])"
| "empty_value (JObject kvs) = (kvs = [])"

fun text_or_empty :: "json option \<Rightarrow> bool" where
  "text_or_empty None = True"
| "text_or_empty (Some v) = (is_text v \<or> empty_value v)"

fun text_entries :: "json \<Rightarrow> bool" where
  "text_entries (JList xs) = list_all is_text xs"
| "text_entries (JString s) = True"
| "text_entries (JObject kvs) = True"
| "text_entries _ = False"

fun tolerated_section :: "json \<Rightarrow> bool" where
  "tolerated_section (JObject kvs) =
     (case map_of kvs ''bullets'' of None \<Rightarrow> True | Some v \<Rightarrow> text_entries v)"
| "tolerated_section _ = False"

fun tolerated_sections :: "json option \<Rightarrow> bool" where
  "tolerated_sections None = True"
| "tolerated_sections (Some (JList ss)) = list_all tolerated_section ss"
| "tolerated_sections (Some (JString s)) = (s = [])"
| "tolerated_sections (Some (JObject kvs)) = (kvs = [])"
| "tolerated_sections (Some _) = False"

fun tolerated_claims :: "json option \<Rightarrow> bool" where
  "tolerated_claims None = True"
| "tolerated_claims (Some v) = text_entries v"

fun tolerated_plan :: "json \<Rightarrow> bool" where
  "tolerated_plan (JObject kvs) =
     (text_or_empty (map_of kvs ''title'') \<and>
      text_or_empty (map_of kvs ''summary'') \<and>
      text_or_empty (map_of kvs ''certificate_note'') \<and>
      tolerated_sections (map_of kvs ''sections'') \<and>
      tolerated_claims (map_of kvs ''claims''))"
| "tolerated_plan _ = False"

text \<open>
  The DocumentationPlan invariants on a returned \<^verbatim>\<open>dict\<close>: \<^verbatim>\<open>title\<close>, \<^verbatim>\<open>summary\<close> and
  \<^verbatim>\<open>certificate_note\<close> are non-empty strings, \<^verbatim>\<open>sections\<close> is a non-empty list, every
  section has a non-empty list of bullets, \<^verbatim>\<open>claims\<close> is a non-empty list; bullets and
  claims are non-empty strings.
\<close>

fun nonempty_text :: "json \<Rightarrow> bool" where
  "nonempty_text (JString s) = (s \<noteq> [])"
| "nonempty_text _ = False"

fun nonempty_texts :: "json \<Rightarrow> bool" where
  "nonempty_texts (JList xs) = (xs \<noteq> [] \<and> list_all nonempty_text xs)"
| "nonempty_texts _ = False"

fun field_holds :: "(json \<Rightarrow> bool) \<Rightarrow> json \<Rightarrow> string \<Rightarrow> bool" where
  "field_holds P (JObject kvs) k = (case map_of kvs k of None \<Rightarrow> False | Some v \<Rightarrow> P v)"
| "field_holds P _ k = False"

definition section_invariants :: "json \<Rightarrow> bool" where
  "section_invariants s = field_holds nonempty_texts s ''bullets''"

fun nonempty_sections :: "json \<Rightarrow> bool" where
  "nonempty_sections (JList ss) = (ss \<noteq> [] \<and> list_all section_invariants ss)"
| "nonempty_sections _ = False"

definition plan_invariants :: "json \<Rightarrow> bool" where
  "plan_invariants p =
     (field_holds nonempty_text p ''title'' \<and>
      field_holds nonempty_text p ''summary'' \<and>
      field_holds nonempty_text p ''certificate_note'' \<and>
      field_holds nonempty_sections p ''sections'' \<and>
      field_holds nonempty_texts p ''claims'')"

section \<open>Cleaning of bullets, in the words of the specification\<close>

text \<open>
  A bullet is blank when it holds only whitespace (or nothing). Cleaning drops the
  blank bullets and trims the others; a section left without bullets gets the
  placeholder.
\<close>

definition blank :: "string \<Rightarrow> bool" where
  "blank s = list_all is_space s"

definition cleaned_bullets :: "string list \<Rightarrow> string list" where
  "cleaned_bullets bs = map strip (filter (\<lambda>b. \<not> blank b) bs)"

definition kept_bullets :: "string list \<Rightarrow> string list" where
  "kept_bullets bs = (if cleaned_bullets bs = [] then [''Details pending.''] else cleaned_bullets bs)"

text \<open>The bullets of an input section, read as strings (none when the key is missing).\<close>

fun text_of :: "json \<Rightarrow> string" where
  "text_of (JString s) = s"
| "text_of _ = []"

fun bullets_in :: "json \<Rightarrow> string list" where
  "bullets_in (JObject kvs) =
     (case map_of kvs ''bullets'' of Some (JList xs) \<Rightarrow> map text_of xs | _ \<Rightarrow> [])"
| "bullets_in _ = []"

text \<open>The returned section \<open>out\<close> holds the kept bullets of the input section \<open>s\<close>.\<close>

definition bullets_kept :: "json \<Rightarrow> json \<Rightarrow> bool" where
  "bullets_kept s out =
     (subscript out ''bullets'' = Inr (JList (map JString (kept_bullets (bullets_in s)))))"

section \<open>The defaulting policy, in the words of the specification\<close>

text \<open>
  What an input holds, read without the normalizer: the value under a key (\<open>d\<close> when
  the key is missing), the strings a bullets value holds (the entries of a list, the
  characters of a string, the keys of a \<^verbatim>\<open>dict\<close>), and the sections of a plan.
\<close>

fun field_or :: "json \<Rightarrow> string \<Rightarrow> json \<Rightarrow> json" where
  "field_or (JObject kvs) k d = (case map_of kvs k of None \<Rightarrow> d | Some v \<Rightarrow> v)"
| "field_or _ k d = d"

fun entry_texts :: "json \<Rightarrow> string list" where
  "entry_texts (JList xs) = map text_of xs"
| "entry_texts (JString s) = map (\<lambda>c. [c]) s"
| "entry_texts (JObject kvs) = map fst kvs"
| "entry_texts _ = []"

fun sections_in :: "json \<Rightarrow> json list" where
  "sections_in (JObject kvs) =
     (case map_of kvs ''sections'' of Some (JList ss) \<Rightarrow> ss | _ \<Rightarrow> [])"
| "sections_in _ = []"

text \<open>
  The section the policy makes of an input section: the heading defaults to
  \<^verbatim>\<open>Section\<close> if empty; the bullets are cleaned (blank ones dropped, the others
  trimmed) and default to \<^verbatim>\<open>["Details pending."]\<close> if none is left. The section
  synthesized for a plan without sections is \<^verbatim>\<open>Overview\<close>, its sole bullet the summary.
\<close>

definition defaulted_section :: "json \<Rightarrow> json" where
  "defaulted_section s =
     JObject
       [(''heading'', if empty_value (field_or s ''heading'' JNull) then JString ''Section''
                      else field_or s ''heading'' JNull),
        (''bullets'', JList (map JString
           (kept_bullets (entry_texts (field_or s ''bullets'' (JList []))))))]"

definition overview_section :: "json \<Rightarrow> json" where
  "overview_section summary =
     JObject [(''heading'', JString ''Overview''), (''bullets'', JList [summary])]"

section \<open>Typed plans\<close>

text \<open>
  The DocumentationPlan and Section of the data model, with every field a string or a
  list, and the \<^verbatim>\<open>dict\<close> that holds such a plan, its keys in the order in which the
  normalizer writes them.
\<close>

record plan_section =
  sec_heading :: string
  sec_bullets :: "string list"

record documentation_plan =
  plan_title :: string
  plan_summary :: string
  plan_sections :: "plan_section list"
  plan_claims :: "string list"
  plan_certificate_note :: string

definition section_json :: "plan_section \<Rightarrow> json" where
  "section_json s =
     JObject [(''heading'', JString (sec_heading s)),
              (''bullets'', JList (map JString (sec_bullets s)))]"

definition plan_json :: "documentation_plan \<Rightarrow> json" where
  "plan_json p =
     JObject [(''title'', JString (plan_title p)),
              (''summary'', JString (plan_summary p)),
              (''sections'', JList (map section_json (plan_sections p))),
              (''claims'', JList (map JString (plan_claims p))),
              (''certificate_note'', JString (plan_certificate_note p))]"

text \<open>
  The DocumentationPlan invariants: non-empty title, summary and certificate note, at
  least one section, at least one bullet in every section, at least one claim.
\<close>

definition valid_plan :: "documentation_plan \<Rightarrow> bool" where
  "valid_plan p =
     (plan_title p \<noteq> [] \<and> plan_summary p \<noteq> [] \<and> plan_certificate_note p \<noteq> [] \<and>
      plan_sections p \<noteq> [] \<and> list_all (\<lambda>s. sec_bullets s \<noteq> []) (plan_sections p) \<and>
      plan_claims p \<noteq> [])"

text \<open>
  A string is trimmed when it is not empty and neither begins nor ends with
  whitespace. A plan is settled when it is valid, every heading is non-empty and every
  bullet and claim is trimmed.
\<close>

definition trimmed :: "string \<Rightarrow> bool" where
  "trimmed s = (s \<noteq> [] \<and> \<not> is_space (hd s) \<and> \<not> is_space (last s))"

definition settled_section :: "plan_section \<Rightarrow> bool" where
  "settled_section s = (sec_heading s \<noteq> [] \<and> list_all trimmed (sec_bullets s))"

definition settled_plan :: "documentation_plan \<Rightarrow> bool" where
  "settled_plan p =
     (valid_plan p \<and> list_all settled_section (plan_sections p) \<and>
      list_all trimmed (plan_claims p))"

section \<open>Failures of a provider call, and sample surroundings\<close>

text \<open>
  The provider call whose outcome is \<open>r\<close> fails with \<open>exc\<close>: the call itself raised
  (network error, non-2xx response), or it returned text that \<^verbatim>\<open>json.loads\<close> rejects.
\<close>

definition reply_fails :: "env \<Rightarrow> string + string \<Rightarrow> string \<Rightarrow> bool" where
  "reply_fails w r exc = (r = Inl exc \<or> (\<exists>raw. r = Inr raw \<and> json_loads w raw = Inl exc))"

text \<open>
  The globals after \<^verbatim>\<open>_init_ai_provider\<close> found an OpenAI key, and after it found no
  credentials at all.
\<close>

definition openai_config :: config where
  "openai_config =
     \<lparr>AI_ENABLED = True, AI_PROVIDER = ''openai'', AI_MODEL = ''gpt-4o-mini'',
      AI_STATUS_MSG = ''OpenAI ready'', client = True, bedrock_client = False, genai = False\<rparr>"

definition static_config :: config where
  "static_config =
     \<lparr>AI_ENABLED = False, AI_PROVIDER = ''auto'', AI_MODEL = ''gpt-4o-mini'',
      AI_STATUS_MSG = ''No AI credentials found; running in static mode'',
      client = False, bedrock_client = False, genai = False\<rparr>"

text \<open>
  \<^verbatim>\<open>json.loads\<close> on the two texts used below, and surroundings in which every provider
  call has the outcome \<open>r\<close> and rendering succeeds.
\<close>

definition loads_sample :: "string \<Rightarrow> string + json" where
  "loads_sample s =
     (if s = ''{}'' then Inr (JObject [])
      else if s = ''{\"title\": \"T\"}'' then Inr (JObject [(''title'', JString ''T'')])
      else Inl ''Expecting value: line 1 column 1 (char 0)'')"

definition env_replying :: "string + string \<Rightarrow> env" where
  "env_replying r =
     \<lparr>chat_completions_create = (\<lambda>m s u. r),
      generate_content = (\<lambda>m p. r),
      invoke_model = (\<lambda>m p. r),
      json_loads = loads_sample,
      render_artifacts = (\<lambda>p m. None)\<rparr>"

text \<open>The plan the normalizer makes of \<^verbatim>\<open>{"title": "T"}\<close> for the message \<^verbatim>\<open>hi\<close>.\<close>

definition titled_plan :: json where
  "titled_plan =
     JObject [(''title'', JString ''T''),
              (''summary'', JString ''Generated documentation for: hi''),
              (''sections'', JList [JObject [(''heading'', JString ''Overview''),
                 (''bullets'', JList [JString ''Generated documentation for: hi''])]]),
              (''claims'', JList [JString ''Automated documentation generation based on user input.'']),
              (''certificate_note'', JString ''Generated via ASTHRA.'')]"


section \<open>The normalizer on well-shaped input\<close>

lemma bnd_Inr [simp]: "bnd (Inr v) f = f v"
  by (simp add: bnd_def)

lemma bnd_Inl [simp]: "bnd (Inl e) f = Inl e"
  by (simp add: bnd_def)

lemma strip_entries_texts:
  "list_all is_text xs \<Longrightarrow> \<exists>ys. strip_entries xs = Inr ys \<and> list_all nonempty_text ys"
proof (induction xs)
  case Nil then show ?case by simp
next
  case (Cons x xs)
  then obtain s where x: "x = JString s" by (cases x) auto
  from Cons obtain ys where ys: "strip_entries xs = Inr ys" "list_all nonempty_text ys" by auto
  show ?case using x ys by simp
qed

lemma empty_value_iff: "empty_value v \<longleftrightarrow> \<not> truthy v"
  by (cases v) auto

lemma text_entries_iter:
  "text_entries v \<Longrightarrow> \<exists>bs. py_iter v = Inr bs \<and> list_all is_text bs"
  by (cases v) (auto simp: list_all_iff)

lemma get_or_text_or_empty:
  assumes "text_or_empty (map_of kvs k)" and "nonempty_text d"
  shows "nonempty_text (py_or (case map_of kvs k of None \<Rightarrow> JNull | Some v \<Rightarrow> v) d)"
proof (cases "map_of kvs k")
  case None then show ?thesis using assms by (simp add: py_or_def)
next
  case (Some v)
  with assms(1) have "is_text v \<or> \<not> truthy v" by (simp add: empty_value_iff)
  then show ?thesis using Some assms(2) by (cases v) (auto simp: py_or_def)
qed

lemma normalize_section_tolerated:
  assumes "tolerated_section s"
  shows "\<exists>out. normalize_section s = Inr out \<and> section_invariants out"
proof -
  from assms obtain kvs where s: "s = JObject kvs" by (cases s) auto
  have "text_entries (case map_of kvs ''bullets'' of None \<Rightarrow> JList [] | Some v \<Rightarrow> v)"
    using assms s by (cases "map_of kvs ''bullets''") auto
  then obtain bs where bs: "py_iter (case map_of kvs ''bullets'' of None \<Rightarrow> JList [] | Some v \<Rightarrow> v) = Inr bs"
      "list_all is_text bs"
    using text_entries_iter by blast
  then obtain ys where ys: "strip_entries bs = Inr ys" "list_all nonempty_text ys"
    using strip_entries_texts by blast
  show ?thesis using s bs(1) ys
    by (simp add: normalize_section_def section_invariants_def py_or_def)
qed

lemma normalize_sections_tolerated:
  "list_all tolerated_section ss \<Longrightarrow>
   \<exists>outs. normalize_sections ss = Inr outs \<and> list_all section_invariants outs"
proof (induction ss)
  case Nil then show ?case by simp
next
  case (Cons s ss)
  then obtain out where o: "normalize_section s = Inr out" "section_invariants out"
    using normalize_section_tolerated by auto
  from Cons obtain outs where os: "normalize_sections ss = Inr outs" "list_all section_invariants outs"
    by auto
  show ?case using o os by simp
qed

lemma tolerated_plan_normalizes:
  assumes "tolerated_plan plan"
  shows "\<exists>out. normalize_plan plan seed = Inr out \<and> plan_invariants out"
proof -
  from assms obtain kvs where plan: "plan = JObject kvs" by (cases plan) auto
  from assms plan have
    t: "text_or_empty (map_of kvs ''title'')" and
    s: "text_or_empty (map_of kvs ''summary'')" and
    n: "text_or_empty (map_of kvs ''certificate_note'')" and
    ss: "tolerated_sections (map_of kvs ''sections'')" and
    cs: "tolerated_claims (map_of kvs ''claims'')"
    by simp_all
  define title where "title = py_or (case map_of kvs ''title'' of None \<Rightarrow> JNull | Some v \<Rightarrow> v) default_title"
  define summary where "summary = py_or (case map_of kvs ''summary'' of None \<Rightarrow> JNull | Some v \<Rightarrow> v) (default_summary seed)"
  define cnote where "cnote = py_or (case map_of kvs ''certificate_note'' of None \<Rightarrow> JNull | Some v \<Rightarrow> v) default_note"
  have title: "nonempty_text title"
    unfolding title_def using t by (rule get_or_text_or_empty) (simp add: default_title_def)
  have summary: "nonempty_text summary"
    unfolding summary_def using s by (rule get_or_text_or_empty) (simp add: default_summary_def)
  have cnote: "nonempty_text cnote"
    unfolding cnote_def using n by (rule get_or_text_or_empty) (simp add: default_note_def)
  obtain secs where secs: "py_iter (case map_of kvs ''sections'' of None \<Rightarrow> JList [] | Some v \<Rightarrow> v) = Inr secs"
      "list_all tolerated_section secs"
  proof (cases "map_of kvs ''sections''")
    case None then show ?thesis using that by simp
  next
    case (Some v)
    show ?thesis using ss Some that by (cases v) auto
  qed
  obtain appended where app: "normalize_sections secs = Inr appended" "list_all section_invariants appended"
    using normalize_sections_tolerated[OF secs(2)] by blast
  have "text_entries (case map_of kvs ''claims'' of None \<Rightarrow> JList [] | Some v \<Rightarrow> v)"
    using cs by (cases "map_of kvs ''claims''") auto
  then obtain cl where cl: "py_iter (case map_of kvs ''claims'' of None \<Rightarrow> JList [] | Some v \<Rightarrow> v) = Inr cl"
      "list_all is_text cl"
    using text_entries_iter by blast
  obtain cleaned where cleaned: "strip_entries cl = Inr cleaned" "list_all nonempty_text cleaned"
    using strip_entries_texts[OF cl(2)] by blast
  have claims: "nonempty_texts (py_or (JList cleaned) default_claims)"
    using cleaned(2) by (simp add: py_or_def default_claims_def)
  have sections: "nonempty_sections (JList (if appended = []
            then [JObject [(''heading'', JString ''Overview''), (''bullets'', JList [summary])]]
            else appended))"
    using app(2) summary by (simp add: section_invariants_def)
  have "normalize_plan plan seed = Inr (JObject [(''title'', title), (''summary'', summary),
          (''sections'', JList (if appended = []
            then [JObject [(''heading'', JString ''Overview''), (''bullets'', JList [summary])]]
            else appended)),
          (''claims'', py_or (JList cleaned) default_claims),
          (''certificate_note'', cnote)])"
    unfolding normalize_plan_def plan title_def summary_def cnote_def
    using secs(1) app(1) cl(1) cleaned(1) by (simp add: Let_def)
  moreover have "plan_invariants (JObject [(''title'', title), (''summary'', summary),
          (''sections'', JList (if appended = []
            then [JObject [(''heading'', JString ''Overview''), (''bullets'', JList [summary])]]
            else appended)),
          (''claims'', py_or (JList cleaned) default_claims),
          (''certificate_note'', cnote)])"
    unfolding plan_invariants_def using title summary cnote claims sections by simp
  ultimately show ?thesis by blast
qed

lemma not_object_raises: "\<not> is_object plan \<Longrightarrow> normalize_plan plan seed = Inl AttributeError"
  by (cases plan) (simp_all add: normalize_plan_def)

lemma text_list_entries: "text_list v \<Longrightarrow> text_entries v"
  by (cases v) auto

lemma shaped_section_tolerated: "shaped_section s \<Longrightarrow> tolerated_section s"
  by (cases s) (auto split: option.splits intro: text_list_entries)

lemma text_or_missing_empty: "text_or_missing v \<Longrightarrow> text_or_empty v"
proof (cases v)
  case None then show ?thesis by simp
next
  case (Some x)
  assume "text_or_missing v"
  with Some show ?thesis by (cases x) auto
qed

lemma shaped_sections_tolerated: "shaped_sections v \<Longrightarrow> tolerated_sections v"
proof (cases v)
  case None then show ?thesis by simp
next
  case (Some x)
  assume "shaped_sections v"
  with Some show ?thesis
    by (cases x) (auto simp: list_all_iff intro: shaped_section_tolerated)
qed

lemma shaped_claims_tolerated: "shaped_claims v \<Longrightarrow> tolerated_claims v"
  by (cases v) (auto intro: text_list_entries)

lemma shaped_plan_tolerated: "shaped_plan plan \<Longrightarrow> tolerated_plan plan"
proof (cases plan)
  case (JObject kvs)
  assume "shaped_plan plan"
  with JObject show ?thesis
    by (simp add: text_or_missing_empty shaped_sections_tolerated shaped_claims_tolerated)
qed auto

text \<open>
  Claim C1, amended. The normalizer raises \<^verbatim>\<open>AttributeError\<close> on every value that is
  not a \<^verbatim>\<open>dict\<close> (\<^verbatim>\<open>None\<close>, a list, a string, a number, a boolean). On every \<^verbatim>\<open>dict\<close>
  whose \<^verbatim>\<open>title\<close>, \<^verbatim>\<open>summary\<close> and \<^verbatim>\<open>certificate_note\<close> are missing, empty or a
  string, whose \<^verbatim>\<open>sections\<close> is missing, a list of \<^verbatim>\<open>dict\<close>s, an empty string or an
  empty \<^verbatim>\<open>dict\<close>, each section having \<^verbatim>\<open>bullets\<close> missing, a list of strings, a
  string or a \<^verbatim>\<open>dict\<close>, and whose \<^verbatim>\<open>claims\<close> is missing, a list of strings, a string
  or a \<^verbatim>\<open>dict\<close>, it returns, and the plan returned satisfies the DocumentationPlan
  invariants, for any fallback message.
\<close>

theorem normalize_plan_total_on_tolerated:
  "(tolerated_plan plan \<longrightarrow> (\<exists>out. normalize_plan plan seed = Inr out \<and> plan_invariants out)) \<and>
   (\<not> is_object plan \<longrightarrow> normalize_plan plan seed = Inl AttributeError)"
  using tolerated_plan_normalizes [of plan seed] not_object_raises [of plan seed]
  by blast

theorem normalize_plan_total_on_tolerated_witness:
  "tolerated_plan
     (JObject [(''title'', JBool False),
               (''summary'', JString []),
               (''sections'', JList [JObject [(''bullets'', JList [JString '' a '', JString '' ''])],
                                     JObject [(''heading'', JInt 0), (''bullets'', JString ''ab'')],
                                     JObject []]),
               (''claims'', JString ''ab'')]) \<and>
   (\<exists>out. normalize_plan
            (JObject [(''title'', JBool False),
               (''summary'', JString []),
               (''sections'', JList [JObject [(''bullets'', JList [JString '' a '', JString '' ''])],
                                     JObject [(''heading'', JInt 0), (''bullets'', JString ''ab'')],
                                     JObject []]),
               (''claims'', JString ''ab'')]) ''demo'' = Inr out \<and>
          plan_invariants out) \<and>
   \<not> is_object (JList [JInt 1]) \<and>
   normalize_plan (JList [JInt 1]) ''demo'' = Inl AttributeError"
proof -
  have t: "tolerated_plan
     (JObject [(''title'', JBool False),
               (''summary'', JString []),
               (''sections'', JList [JObject [(''bullets'', JList [JString '' a '', JString '' ''])],
                                     JObject [(''heading'', JInt 0), (''bullets'', JString ''ab'')],
                                     JObject []]),
               (''claims'', JString ''ab'')])"
    by simp
  have n: "\<not> is_object (JList [JInt 1])" by simp
  show ?thesis
    using t n
      normalize_plan_total_on_tolerated
        [of "JObject [(''title'', JBool False),
               (''summary'', JString []),
               (''sections'', JList [JObject [(''bullets'', JList [JString '' a '', JString '' ''])],
                                     JObject [(''heading'', JInt 0), (''bullets'', JString ''ab'')],
                                     JObject []]),
               (''claims'', JString ''ab'')]" "''demo''"]
      normalize_plan_total_on_tolerated [of "JList [JInt 1]" "''demo''"]
    by blast
qed

text \<open>
  The normalizer raises on \<^verbatim>\<open>None\<close>, on the list \<^verbatim>\<open>[1]\<close> and on a \<^verbatim>\<open>dict\<close> whose
  \<^verbatim>\<open>sections\<close> is \<^verbatim>\<open>None\<close>; the last two are truthy, so that the handler passes them
  on when the provider answers with them.
\<close>

theorem normalize_plan_raises:
  "normalize_plan JNull ''demo'' = Inl AttributeError \<and>
   normalize_plan (JList [JInt 1]) ''demo'' = Inl AttributeError \<and>
   normalize_plan (JObject [(''sections'', JNull)]) ''demo'' = Inl TypeError"
  by (simp add: normalize_plan_def)

lemma shaped_plan_returns: "shaped_plan plan \<Longrightarrow> \<exists>out. normalize_plan plan seed = Inr out"
  using tolerated_plan_normalizes [OF shaped_plan_tolerated] by blast

section \<open>What the normalizer returns\<close>

lemma normalize_plan_InrE:
  assumes "normalize_plan plan seed = Inr out"
  obtains t s sv secs appended cv cs cleaned n where
    "dict_get plan ''title'' JNull = Inr t"
    "dict_get plan ''summary'' JNull = Inr s"
    "dict_get plan ''sections'' (JList []) = Inr sv"
    "py_iter sv = Inr secs"
    "normalize_sections secs = Inr appended"
    "dict_get plan ''claims'' (JList []) = Inr cv"
    "py_iter cv = Inr cs"
    "strip_entries cs = Inr cleaned"
    "dict_get plan ''certificate_note'' JNull = Inr n"
    "out = JObject [(''title'', py_or t default_title),
                    (''summary'', py_or s (default_summary seed)),
                    (''sections'', JList (if appended = []
                        then [JObject [(''heading'', JString ''Overview''),
                                       (''bullets'', JList [py_or s (default_summary seed)])]]
                        else appended)),
                    (''claims'', py_or (JList cleaned) default_claims),
                    (''certificate_note'', py_or n default_note)]"
  using assms unfolding normalize_plan_def bnd_def Let_def
  by (auto split: sum.splits)

section \<open>Blank bullets and the sections kept\<close>

lemma dropWhile_Nil_iff: "dropWhile P xs = [] \<longleftrightarrow> list_all P xs"
  by (induction xs) auto

lemma strip_empty_iff: "strip s = [] \<longleftrightarrow> blank s"
proof
  assume "blank s"
  then have d: "dropWhile is_space s = []" by (simp only: blank_def dropWhile_Nil_iff)
  show "strip s = []" unfolding strip_def d by simp
next
  assume e: "strip s = []"
  show "blank s"
  proof (rule ccontr)
    assume "\<not> blank s"
    then have ne: "dropWhile is_space s \<noteq> []"
      using dropWhile_Nil_iff[of is_space s] unfolding blank_def by blast
    then have "\<not> is_space (hd (dropWhile is_space s))" by (rule hd_dropWhile)
    moreover have "hd (dropWhile is_space s) \<in> set (rev (dropWhile is_space s))" using ne by simp
    ultimately have "\<not> list_all is_space (rev (dropWhile is_space s))"
      by (auto simp: list_all_iff)
    then have "dropWhile is_space (rev (dropWhile is_space s)) \<noteq> []"
      using dropWhile_Nil_iff[of is_space "rev (dropWhile is_space s)"] by blast
    then show False using e by (simp add: strip_def)
  qed
qed

lemma strip_entries_strings:
  "strip_entries (map JString bs) = Inr (map JString (cleaned_bullets bs))"
  by (induction bs) (simp_all add: cleaned_bullets_def strip_empty_iff)

lemma text_list_map: "list_all is_text xs \<Longrightarrow> xs = map JString (map text_of xs)"
proof (induction xs)
  case Nil then show ?case by simp
next
  case (Cons x xs) then show ?case by (cases x) auto
qed

lemma normalize_section_bullets:
  assumes "shaped_section s"
  shows "\<exists>h. normalize_section s =
           Inr (JObject [(''heading'', h), (''bullets'', JList (map JString (kept_bullets (bullets_in s))))])"
proof -
  from assms obtain kvs where s: "s = JObject kvs" by (cases s) auto
  show ?thesis
  proof (cases "map_of kvs ''bullets''")
    case None
    then show ?thesis using s
      by (simp add: normalize_section_def py_or_def kept_bullets_def cleaned_bullets_def)
  next
    case (Some v)
    with assms s obtain xs where v: "v = JList xs" "list_all is_text xs" by (cases v) auto
    have xs: "xs = map JString (map text_of xs)" using v(2) by (rule text_list_map)
    have "strip_entries xs = Inr (map JString (cleaned_bullets (map text_of xs)))"
      using strip_entries_strings[of "map text_of xs"] xs by simp
    then show ?thesis using s Some v
      by (simp add: normalize_section_def py_or_def kept_bullets_def)
  qed
qed

lemma normalize_sections_bullets:
  "list_all shaped_section ss \<Longrightarrow>
   \<exists>outs. normalize_sections ss = Inr outs \<and>
     list_all2 (\<lambda>s out. subscript out ''bullets'' = Inr (JList (map JString (kept_bullets (bullets_in s))))) ss outs"
proof (induction ss)
  case Nil then show ?case by simp
next
  case (Cons s ss)
  then obtain h where h: "normalize_section s =
           Inr (JObject [(''heading'', h), (''bullets'', JList (map JString (kept_bullets (bullets_in s))))])"
    using normalize_section_bullets[of s] by auto
  from Cons obtain outs where "normalize_sections ss = Inr outs"
     "list_all2 (\<lambda>s out. subscript out ''bullets'' = Inr (JList (map JString (kept_bullets (bullets_in s))))) ss outs"
    by auto
  then show ?case using h by simp
qed

text \<open>
  Claim C3, amended. Bullets holding only whitespace are dropped from a section's
  bullet list and the others are trimmed; a section whose bullet list is empty after
  this cleaning is retained, its bullets being the placeholder \<^verbatim>\<open>Details pending.\<close>:
  on a well-shaped plan with at least one section the normalizer returns one section
  for each section given, in order, each with the kept bullets of its input.
\<close>

theorem blank_bullets_dropped_section_kept:
  assumes "shaped_plan plan"
    and "dict_get plan ''sections'' (JList []) = Inr (JList ss)"
    and "ss \<noteq> []"
  shows "\<exists>out outs. normalize_plan plan seed = Inr out \<and>
           subscript out ''sections'' = Inr (JList outs) \<and>
           list_all2 bullets_kept ss outs"
proof -
  from assms(1) obtain out where out: "normalize_plan plan seed = Inr out"
    using shaped_plan_returns by blast
  from assms(1) obtain kvs where plan: "plan = JObject kvs" by (cases plan) auto
  from assms(1,2) plan have sh: "list_all shaped_section ss"
    by (cases "map_of kvs ''sections''") auto
  then obtain outs where outs: "normalize_sections ss = Inr outs"
      "list_all2 bullets_kept ss outs"
    using normalize_sections_bullets[of ss] unfolding bullets_kept_def by blast
  from outs(2) assms(3) have ne: "outs \<noteq> []" by (auto dest: list_all2_lengthD)
  from out assms(2) outs(1) ne have "subscript out ''sections'' = Inr (JList outs)"
    by (elim normalize_plan_InrE) auto
  with out outs(2) show ?thesis by blast
qed

theorem blank_bullets_dropped_section_kept_witness:
  "shaped_plan (JObject [(''sections'', JList [JObject [(''heading'', JString ''A''),
                                                        (''bullets'', JList [JString ''  ''])],
                                               JObject [(''bullets'', JList [JString '' x '', JString []])]])]) \<and>
   dict_get (JObject [(''sections'', JList [JObject [(''heading'', JString ''A''),
                                                        (''bullets'', JList [JString ''  ''])],
                                               JObject [(''bullets'', JList [JString '' x '', JString []])]])])
       ''sections'' (JList []) =
     Inr (JList [JObject [(''heading'', JString ''A''), (''bullets'', JList [JString ''  ''])],
                 JObject [(''bullets'', JList [JString '' x '', JString []])]]) \<and>
   (\<exists>out outs.
      normalize_plan (JObject [(''sections'', JList [JObject [(''heading'', JString ''A''),
                                                        (''bullets'', JList [JString ''  ''])],
                                               JObject [(''bullets'', JList [JString '' x '', JString []])]])])
        ''demo'' = Inr out \<and>
      subscript out ''sections'' = Inr (JList outs) \<and>
      list_all2 bullets_kept
        [JObject [(''heading'', JString ''A''), (''bullets'', JList [JString ''  ''])],
         JObject [(''bullets'', JList [JString '' x '', JString []])]] outs)"
  using blank_bullets_dropped_section_kept
    [of "JObject [(''sections'', JList [JObject [(''heading'', JString ''A''),
                                                  (''bullets'', JList [JString ''  ''])],
                                         JObject [(''bullets'', JList [JString '' x '', JString []])]])]"
        "[JObject [(''heading'', JString ''A''), (''bullets'', JList [JString ''  ''])],
          JObject [(''bullets'', JList [JString '' x '', JString []])]]"
        "''demo''"]
  by simp

text \<open>
  A section whose only bullet is blank stays in the plan returned, with the
  placeholder bullet.
\<close>

theorem emptied_section_retained:
  "normalize_plan (JObject [(''sections'', JList [JObject [(''heading'', JString ''A''),
            (''bullets'', JList [JString ''  ''])]])]) ''demo'' =
   Inr (JObject [(''title'', JString ''ASTHRA Project Documentation''),
        (''summary'', JString ''Generated documentation for: demo''),
        (''sections'', JList [JObject [(''heading'', JString ''A''),
             (''bullets'', JList [JString ''Details pending.''])]]),
        (''claims'', JList [JString ''Automated documentation generation based on user input.'']),
        (''certificate_note'', JString ''Generated via ASTHRA.'')])"
  by (simp add: normalize_plan_def normalize_section_def py_or_def strip_def is_space_def
      default_title_def default_summary_def default_claims_def default_note_def)

section \<open>Entries that are not strings\<close>

text \<open>
  Claim C4. The filter of the comprehension coerces with \<^verbatim>\<open>str(b)\<close>, the expression
  calls \<^verbatim>\<open>b.strip()\<close> on the entry itself: a number among the bullets or the claims
  makes the normalizer raise \<^verbatim>\<open>AttributeError\<close>.
\<close>

theorem non_string_entry_raises:
  "normalize_plan (JObject [(''sections'', JList [JObject [(''heading'', JString ''Costs''),
            (''bullets'', JList [JInt 3, JString ''b''])]])]) ''demo'' = Inl AttributeError \<and>
   normalize_plan (JObject [(''claims'', JList [JInt 1])]) ''demo'' = Inl AttributeError"
  by (simp add: normalize_plan_def normalize_section_def py_or_def default_title_def
      default_summary_def)

section \<open>Defaults\<close>

lemma strip_entries_all_text: "strip_entries bs = Inr cl \<Longrightarrow> list_all is_text bs"
proof (induction bs arbitrary: cl)
  case Nil then show ?case by simp
next
  case (Cons b bs)
  show ?case
  proof (cases b)
    case (JString s)
    with Cons show ?thesis by (auto simp: bnd_def split: if_splits sum.splits)
  qed (use Cons.prems in auto)
qed

lemma strip_entries_cleaned:
  assumes "strip_entries bs = Inr cl"
  shows "cl = map JString (cleaned_bullets (map text_of bs))"
proof -
  have "list_all is_text bs" using assms by (rule strip_entries_all_text)
  then have "bs = map JString (map text_of bs)" by (rule text_list_map)
  then have "strip_entries bs = Inr (map JString (cleaned_bullets (map text_of bs)))"
    using strip_entries_strings[of "map text_of bs"] by simp
  with assms show ?thesis by simp
qed

lemma iter_texts: "py_iter v = Inr bs \<Longrightarrow> map text_of bs = entry_texts v"
  by (cases v) (auto simp: comp_def)

lemma normalize_section_is_defaulted:
  assumes "normalize_section s = Inr out"
  shows "out = defaulted_section s"
proof -
  from assms obtain h bv bs cl where
    h: "dict_get s ''heading'' JNull = Inr h" and
    bv: "dict_get s ''bullets'' (JList []) = Inr bv" and
    bs: "py_iter bv = Inr bs" and
    cl: "strip_entries bs = Inr cl" and
    out: "out = JObject [(''heading'', py_or h (JString ''Section'')),
                         (''bullets'', py_or (JList cl) (JList [JString ''Details pending.'']))]"
    unfolding normalize_section_def bnd_def Let_def by (auto split: sum.splits)
  from h obtain kvs where s: "s = JObject kvs" by (cases s) auto
  from h s have hf: "h = field_or s ''heading'' JNull" by simp
  from bv s have bf: "bv = field_or s ''bullets'' (JList [])" by simp
  have "cl = map JString (cleaned_bullets (entry_texts bv))"
    using strip_entries_cleaned[OF cl] iter_texts[OF bs] by simp
  then have "py_or (JList cl) (JList [JString ''Details pending.'']) =
             JList (map JString (kept_bullets (entry_texts bv)))"
    by (simp add: py_or_def kept_bullets_def)
  moreover have "py_or h (JString ''Section'') =
      (if empty_value h then JString ''Section'' else h)"
    by (simp add: py_or_def empty_value_iff)
  ultimately show ?thesis unfolding out defaulted_section_def hf[symmetric] bf[symmetric] by simp
qed

lemma normalize_sections_are_defaulted:
  "normalize_sections ss = Inr outs \<Longrightarrow> outs = map defaulted_section ss"
proof (induction ss arbitrary: outs)
  case Nil then show ?case by simp
next
  case (Cons s ss)
  from Cons.prems obtain v vs where v: "normalize_section s = Inr v"
    and vs: "normalize_sections ss = Inr vs" and outs: "outs = v # vs"
    by (auto simp: bnd_def split: sum.splits)
  show ?case using normalize_section_is_defaulted[OF v] Cons.IH[OF vs] outs by simp
qed

lemma normalize_section_object: "normalize_section s = Inr out \<Longrightarrow> is_object s"
  by (cases s) (simp_all add: normalize_section_def)

lemma normalize_sections_objects:
  "normalize_sections ss = Inr outs \<Longrightarrow> list_all is_object ss"
proof (induction ss arbitrary: outs)
  case Nil then show ?case by simp
next
  case (Cons s ss)
  from Cons.prems obtain v vs where v: "normalize_section s = Inr v"
    and vs: "normalize_sections ss = Inr vs"
    by (auto simp: bnd_def split: sum.splits)
  show ?case using normalize_section_object[OF v] Cons.IH[OF vs] by simp
qed

lemma visited_sections:
  assumes "dict_get plan ''sections'' (JList []) = Inr sv" and "py_iter sv = Inr secs"
    and "normalize_sections secs = Inr appended"
  shows "secs = sections_in plan"
proof -
  from assms(1) obtain kvs where plan: "plan = JObject kvs" by (cases plan) auto
  have ob: "list_all is_object secs" using assms(3) by (rule normalize_sections_objects)
  show ?thesis
  proof (cases sv)
    case (JList l)
    with assms(1,2) plan show ?thesis by (auto split: option.splits)
  next
    case (JString x)
    with assms(2) ob have "secs = []" by (cases x) auto
    moreover have "sections_in plan = []"
      using assms(1) plan JString by (auto split: option.splits)
    ultimately show ?thesis by simp
  next
    case (JObject x)
    with assms(2) ob have "secs = []" by (cases x) auto
    moreover have "sections_in plan = []"
      using assms(1) plan JObject by (auto split: option.splits)
    ultimately show ?thesis by simp
  qed (use assms(2) in auto)
qed

text \<open>
  Claim C9. Whenever the normalizer returns, the sections of the plan returned are
  those of the defaulting policy: if the input has no section, exactly one section,
  named \<^verbatim>\<open>Overview\<close>, whose sole bullet is the resolved summary; otherwise, for each
  input section in order, the section whose heading is \<^verbatim>\<open>Section\<close> if the input heading
  is empty and whose bullets are the cleaned bullets of the input, or
  \<^verbatim>\<open>["Details pending."]\<close> if none is left after cleaning. On every tolerated input
  the normalizer does return.
\<close>

theorem normalizer_defaults:
  "(\<forall>out. normalize_plan plan seed = Inr out \<longrightarrow>
      (\<exists>summary.
         subscript out ''summary'' = Inr summary \<and>
         subscript out ''sections'' =
           Inr (JList (if sections_in plan = [] then [overview_section summary]
                       else map defaulted_section (sections_in plan))))) \<and>
   (tolerated_plan plan \<longrightarrow> (\<exists>out. normalize_plan plan seed = Inr out))"
proof (intro conjI allI impI)
  fix out assume "normalize_plan plan seed = Inr out"
  then show "\<exists>summary.
         subscript out ''summary'' = Inr summary \<and>
         subscript out ''sections'' =
           Inr (JList (if sections_in plan = [] then [overview_section summary]
                       else map defaulted_section (sections_in plan)))"
  proof (elim normalize_plan_InrE)
    fix t s sv secs appended cv cs cleaned n
    assume sv: "dict_get plan ''sections'' (JList []) = Inr sv" and it: "py_iter sv = Inr secs"
      and app: "normalize_sections secs = Inr appended"
      and out: "out = JObject [(''title'', py_or t default_title),
                    (''summary'', py_or s (default_summary seed)),
                    (''sections'', JList (if appended = []
                        then [JObject [(''heading'', JString ''Overview''),
                                       (''bullets'', JList [py_or s (default_summary seed)])]]
                        else appended)),
                    (''claims'', py_or (JList cleaned) default_claims),
                    (''certificate_note'', py_or n default_note)]"
    have secs: "secs = sections_in plan" using sv it app by (rule visited_sections)
    have d: "appended = map defaulted_section (sections_in plan)"
      using app unfolding secs by (rule normalize_sections_are_defaulted)
    have "subscript out ''summary'' = Inr (py_or s (default_summary seed))"
      unfolding out by simp
    moreover have "subscript out ''sections'' =
           Inr (JList (if sections_in plan = [] then [overview_section (py_or s (default_summary seed))]
                       else map defaulted_section (sections_in plan)))"
      unfolding out d by (simp add: overview_section_def)
    ultimately show ?thesis by blast
  qed
next
  assume "tolerated_plan plan"
  then show "\<exists>out. normalize_plan plan seed = Inr out"
    using tolerated_plan_normalizes by blast
qed


theorem normalizer_defaults_witness:
  "normalize_plan
     (JObject [(''sections'', JList [JObject [(''heading'', JString []),
                                              (''bullets'', JList [JString ''  ''])],
                                     JObject [(''heading'', JString ''H''),
                                              (''bullets'', JList [JString '' x '', JString []])]])])
     ''demo'' =
   Inr (JObject [(''title'', JString ''ASTHRA Project Documentation''),
                 (''summary'', JString ''Generated documentation for: demo''),
                 (''sections'', JList [JObject [(''heading'', JString ''Section''),
                                                (''bullets'', JList [JString ''Details pending.''])],
                                       JObject [(''heading'', JString ''H''),
                                                (''bullets'', JList [JString ''x''])]]),
                 (''claims'', JList [JString ''Automated documentation generation based on user input.'']),
                 (''certificate_note'', JString ''Generated via ASTHRA.'')]) \<and>
   (\<exists>summary.
      subscript
        (JObject [(''title'', JString ''ASTHRA Project Documentation''),
                 (''summary'', JString ''Generated documentation for: demo''),
                 (''sections'', JList [JObject [(''heading'', JString ''Section''),
                                                (''bullets'', JList [JString ''Details pending.''])],
                                       JObject [(''heading'', JString ''H''),
                                                (''bullets'', JList [JString ''x''])]]),
                 (''claims'', JList [JString ''Automated documentation generation based on user input.'']),
                 (''certificate_note'', JString ''Generated via ASTHRA.'')]) ''summary'' = Inr summary \<and>
      subscript
        (JObject [(''title'', JString ''ASTHRA Project Documentation''),
                 (''summary'', JString ''Generated documentation for: demo''),
                 (''sections'', JList [JObject [(''heading'', JString ''Section''),
                                                (''bullets'', JList [JString ''Details pending.''])],
                                       JObject [(''heading'', JString ''H''),
                                                (''bullets'', JList [JString ''x''])]]),
                 (''claims'', JList [JString ''Automated documentation generation based on user input.'']),
                 (''certificate_note'', JString ''Generated via ASTHRA.'')]) ''sections'' =
        Inr (JList
          (if sections_in
                (JObject [(''sections'', JList [JObject [(''heading'', JString []),
                                              (''bullets'', JList [JString ''  ''])],
                                     JObject [(''heading'', JString ''H''),
                                              (''bullets'', JList [JString '' x '', JString []])]])]) = []
           then [overview_section summary]
           else map defaulted_section
                  (sections_in
                     (JObject [(''sections'', JList [JObject [(''heading'', JString []),
                                              (''bullets'', JList [JString ''  ''])],
                                     JObject [(''heading'', JString ''H''),
                                              (''bullets'', JList [JString '' x '', JString []])]])]))))) \<and>
   map defaulted_section
     (sections_in
        (JObject [(''sections'', JList [JObject [(''heading'', JString []),
                                              (''bullets'', JList [JString ''  ''])],
                                     JObject [(''heading'', JString ''H''),
                                              (''bullets'', JList [JString '' x '', JString []])]])])) =
     [JObject [(''heading'', JString ''Section''),
               (''bullets'', JList [JString ''Details pending.''])],
      JObject [(''heading'', JString ''H''), (''bullets'', JList [JString ''x''])]] \<and>
   tolerated_plan (JObject [(''summary'', JString ''S'')]) \<and>
   (\<exists>out. normalize_plan (JObject [(''summary'', JString ''S'')]) ''demo'' = Inr out)"
proof -
  let ?P = "JObject [(''sections'', JList [JObject [(''heading'', JString []),
                                              (''bullets'', JList [JString ''  ''])],
                                     JObject [(''heading'', JString ''H''),
                                              (''bullets'', JList [JString '' x '', JString []])]])]"
  let ?OUT = "JObject [(''title'', JString ''ASTHRA Project Documentation''),
                 (''summary'', JString ''Generated documentation for: demo''),
                 (''sections'', JList [JObject [(''heading'', JString ''Section''),
                                                (''bullets'', JList [JString ''Details pending.''])],
                                       JObject [(''heading'', JString ''H''),
                                                (''bullets'', JList [JString ''x''])]]),
                 (''claims'', JList [JString ''Automated documentation generation based on user input.'']),
                 (''certificate_note'', JString ''Generated via ASTHRA.'')]"
  have ev: "normalize_plan ?P ''demo'' = Inr ?OUT"
    by (simp add: normalize_plan_def normalize_section_def py_or_def Let_def strip_def
        is_space_def default_title_def default_summary_def default_claims_def default_note_def)
  have inst: "\<exists>summary. subscript ?OUT ''summary'' = Inr summary \<and>
      subscript ?OUT ''sections'' =
        Inr (JList (if sections_in ?P = [] then [overview_section summary]
                    else map defaulted_section (sections_in ?P)))"
    using ev normalizer_defaults [of ?P "''demo''"] by blast
  have secs: "map defaulted_section (sections_in ?P) =
     [JObject [(''heading'', JString ''Section''),
               (''bullets'', JList [JString ''Details pending.''])],
      JObject [(''heading'', JString ''H''), (''bullets'', JList [JString ''x''])]]"
    by (simp add: defaulted_section_def kept_bullets_def cleaned_bullets_def blank_def
        strip_def is_space_def)
  have tol: "tolerated_plan (JObject [(''summary'', JString ''S'')])" by simp
  have ret: "\<exists>out. normalize_plan (JObject [(''summary'', JString ''S'')]) ''demo'' = Inr out"
    using tol normalizer_defaults [of "JObject [(''summary'', JString ''S'')]" "''demo''"]
    by blast
  show ?thesis using ev inst secs tol ret by (intro conjI)
qed

section \<open>Plans the normalizer leaves unchanged\<close>

lemma strip_unchanged:
  assumes "s \<noteq> []" and "\<not> is_space (hd s)" and "\<not> is_space (last s)"
  shows "strip s = s"
proof -
  have d: "dropWhile is_space s = s" using assms(1,2) by (cases s) auto
  have "rev s \<noteq> []" and "\<not> is_space (hd (rev s))" using assms(1,3) by (simp_all add: hd_rev)
  then have "dropWhile is_space (rev s) = rev s" by (cases "rev s") auto
  with d show ?thesis by (simp add: strip_def)
qed


lemma strip_entries_trimmed:
  "list_all trimmed bs \<Longrightarrow> strip_entries (map JString bs) = Inr (map JString bs)"
  by (induction bs) (simp_all add: trimmed_def strip_unchanged)

lemma normalize_section_settled:
  "settled_section s \<Longrightarrow> sec_bullets s \<noteq> [] \<Longrightarrow> normalize_section (section_json s) = Inr (section_json s)"
  by (simp add: normalize_section_def section_json_def settled_section_def
        strip_entries_trimmed py_or_def)

lemma normalize_sections_settled:
  "list_all settled_section ss \<Longrightarrow> list_all (\<lambda>s. sec_bullets s \<noteq> []) ss \<Longrightarrow>
   normalize_sections (map section_json ss) = Inr (map section_json ss)"
  by (induction ss) (simp_all add: normalize_section_settled)

text \<open>
  Claim C8, amended. A plan that satisfies the DocumentationPlan invariants, whose
  section headings are non-empty and whose bullets and claims are non-empty strings
  that neither begin nor end with whitespace, is returned unchanged, for any fallback
  message.
\<close>

theorem settled_plan_unchanged:
  assumes "settled_plan p"
  shows "normalize_plan (plan_json p) seed = Inr (plan_json p)"
proof -
  from assms have v: "valid_plan p" and ss: "list_all settled_section (plan_sections p)"
    and cs: "list_all trimmed (plan_claims p)"
    by (simp_all add: settled_plan_def)
  from v have secs: "normalize_sections (map section_json (plan_sections p)) =
      Inr (map section_json (plan_sections p))"
    using ss by (intro normalize_sections_settled) (simp_all add: valid_plan_def)
  have cl: "strip_entries (map JString (plan_claims p)) = Inr (map JString (plan_claims p))"
    using cs by (rule strip_entries_trimmed)
  show ?thesis
    using v secs cl
    by (simp add: normalize_plan_def plan_json_def valid_plan_def py_or_def Let_def)
qed

theorem settled_plan_unchanged_witness:
  "settled_plan \<lparr>plan_title = ''T'', plan_summary = ''S'',
          plan_sections = [\<lparr>sec_heading = ''H'', sec_bullets = [''a b'']\<rparr>],
          plan_claims = [''c''], plan_certificate_note = ''n''\<rparr> \<and>
   normalize_plan (plan_json \<lparr>plan_title = ''T'', plan_summary = ''S'',
          plan_sections = [\<lparr>sec_heading = ''H'', sec_bullets = [''a b'']\<rparr>],
          plan_claims = [''c''], plan_certificate_note = ''n''\<rparr>) ''demo'' =
   Inr (plan_json \<lparr>plan_title = ''T'', plan_summary = ''S'',
          plan_sections = [\<lparr>sec_heading = ''H'', sec_bullets = [''a b'']\<rparr>],
          plan_claims = [''c''], plan_certificate_note = ''n''\<rparr>)"
proof -
  have h: "settled_plan \<lparr>plan_title = ''T'', plan_summary = ''S'',
          plan_sections = [\<lparr>sec_heading = ''H'', sec_bullets = [''a b'']\<rparr>],
          plan_claims = [''c''], plan_certificate_note = ''n''\<rparr>"
    by (simp add: settled_plan_def valid_plan_def settled_section_def trimmed_def is_space_def)
  show ?thesis using h settled_plan_unchanged [OF h, of "''demo''"] by simp
qed

text \<open>
  A valid plan with a bullet that has whitespace around it is not returned as it is: the
  bullet comes back trimmed.
\<close>

theorem valid_plan_changed:
  "valid_plan \<lparr>plan_title = ''T'', plan_summary = ''S'',
          plan_sections = [\<lparr>sec_heading = ''H'', sec_bullets = ['' a '']\<rparr>],
          plan_claims = [''c''], plan_certificate_note = ''n''\<rparr> \<and>
   normalize_plan (plan_json \<lparr>plan_title = ''T'', plan_summary = ''S'',
          plan_sections = [\<lparr>sec_heading = ''H'', sec_bullets = ['' a '']\<rparr>],
          plan_claims = [''c''], plan_certificate_note = ''n''\<rparr>) ''demo'' \<noteq>
   Inr (plan_json \<lparr>plan_title = ''T'', plan_summary = ''S'',
          plan_sections = [\<lparr>sec_heading = ''H'', sec_bullets = ['' a '']\<rparr>],
          plan_claims = [''c''], plan_certificate_note = ''n''\<rparr>)"
  by (simp add: valid_plan_def plan_json_def section_json_def normalize_plan_def
      normalize_section_def py_or_def strip_def is_space_def)

section \<open>The plan fetcher never raises\<close>

lemma parse_reply_fails: "reply_fails w r exc \<Longrightarrow> parse_reply w r = Inl exc"
  by (auto simp: reply_fails_def parse_reply_def)

lemma parse_reply_Inr: "parse_reply w r = Inr (p, e) \<Longrightarrow> e = None"
  by (auto simp: parse_reply_def split: sum.splits)

lemma call_ai_plan_try_Inr:
  "call_ai_plan_try cfg w message = (Inr (p, e), evs) \<Longrightarrow> truthy p \<Longrightarrow> e = None"
  by (auto simp: call_ai_plan_try_def split: if_splits dest: parse_reply_Inr)

lemma call_ai_plan_returns:
  "\<exists>ai_plan ai_error pevs. call_ai_plan cfg w message = (Inr (ai_plan, ai_error), pevs) \<and>
      (truthy ai_plan \<longrightarrow> ai_error = None)"
proof (cases "AI_ENABLED cfg")
  case False
  then show ?thesis by (simp add: call_ai_plan_def)
next
  case True
  obtain r evs where t: "call_ai_plan_try cfg w message = (r, evs)" by (cases "call_ai_plan_try cfg w message")
  show ?thesis
  proof (cases r)
    case (Inl exc)
    then show ?thesis using True t by (simp add: call_ai_plan_def)
  next
    case (Inr pe)
    obtain p e where pe: "pe = (p, e)" by (cases pe)
    have "truthy p \<longrightarrow> e = None" using call_ai_plan_try_Inr[of cfg w message p e evs] t Inr pe by simp
    then show ?thesis using True t Inr pe by (simp add: call_ai_plan_def)
  qed
qed

text \<open>
  Claim C6. For every message, whatever the provider does, \<^verbatim>\<open>_call_ai_plan\<close> returns
  a pair and no exception leaves it. Whenever the body of its \<^verbatim>\<open>try\<close> raises, it
  returns \<^verbatim>\<open>(None, str(exc))\<close>; this is so when the call of the active provider
  fails, when the text it returned is not JSON, and when the \<^verbatim>\<open>genai\<close> module is
  missing.
\<close>

theorem call_ai_plan_catches:
  "(\<exists>r evs. call_ai_plan cfg w message = (Inr r, evs)) \<and>
   (\<forall>exc evs. AI_ENABLED cfg \<longrightarrow> call_ai_plan_try cfg w message = (Inl exc, evs) \<longrightarrow>
       call_ai_plan cfg w message = (Inr (JNull, Some exc), evs)) \<and>
   (\<forall>exc. AI_ENABLED cfg \<longrightarrow> (AI_PROVIDER cfg = ''openai'' \<or> AI_PROVIDER cfg = ''azure'') \<longrightarrow> client cfg \<longrightarrow>
       reply_fails w (chat_completions_create w (AI_MODEL cfg) system_prompt message) exc \<longrightarrow>
       call_ai_plan cfg w message = (Inr (JNull, Some exc), [ProviderCalled (AI_PROVIDER cfg)])) \<and>
   (\<forall>exc. AI_ENABLED cfg \<longrightarrow> AI_PROVIDER cfg = ''gemini'' \<longrightarrow> genai cfg \<longrightarrow>
       reply_fails w (generate_content w (AI_MODEL cfg)
          (system_prompt @ newline @ ''User request:'' @ newline @ message @ newline @
           ''Reply with JSON only.'')) exc \<longrightarrow>
       call_ai_plan cfg w message = (Inr (JNull, Some exc), [ProviderCalled ''gemini''])) \<and>
   (AI_ENABLED cfg \<longrightarrow> AI_PROVIDER cfg = ''gemini'' \<longrightarrow> \<not> genai cfg \<longrightarrow>
       call_ai_plan cfg w message =
         (Inr (JNull, Some (apostrophe @ ''NoneType'' @ apostrophe @ '' object has no attribute '' @
                    apostrophe @ ''GenerativeModel'' @ apostrophe)), [])) \<and>
   (\<forall>exc. AI_ENABLED cfg \<longrightarrow> AI_PROVIDER cfg = ''bedrock'' \<longrightarrow> bedrock_client cfg \<longrightarrow>
       reply_fails w (invoke_model w (AI_MODEL cfg)
          (system_prompt @ newline @ ''User request:'' @ newline @ message)) exc \<longrightarrow>
       call_ai_plan cfg w message = (Inr (JNull, Some exc), [ProviderCalled ''bedrock'']))"
proof (intro conjI allI impI)
  show "\<exists>r evs. call_ai_plan cfg w message = (Inr r, evs)"
    using call_ai_plan_returns[of cfg w message] by blast
qed (simp_all add: call_ai_plan_def call_ai_plan_try_def parse_reply_fails)


theorem call_ai_plan_catches_witness:
  "reply_fails (env_replying (Inl ''Request timed out.''))
     (chat_completions_create (env_replying (Inl ''Request timed out.''))
        (AI_MODEL openai_config) system_prompt ''hi'') ''Request timed out.'' \<and>
   call_ai_plan openai_config (env_replying (Inl ''Request timed out.'')) ''hi'' =
     (Inr (JNull, Some ''Request timed out.''), [ProviderCalled ''openai'']) \<and>
   reply_fails (env_replying (Inr ''not json''))
     (generate_content (env_replying (Inr ''not json''))
        (AI_MODEL (openai_config\<lparr>AI_PROVIDER := ''gemini'', genai := True\<rparr>))
        (system_prompt @ newline @ ''User request:'' @ newline @ ''hi'' @ newline @
         ''Reply with JSON only.''))
     ''Expecting value: line 1 column 1 (char 0)'' \<and>
   call_ai_plan (openai_config\<lparr>AI_PROVIDER := ''gemini'', genai := True\<rparr>)
       (env_replying (Inr ''not json'')) ''hi'' =
     (Inr (JNull, Some ''Expecting value: line 1 column 1 (char 0)''), [ProviderCalled ''gemini'']) \<and>
   call_ai_plan (openai_config\<lparr>AI_PROVIDER := ''gemini''\<rparr>) (env_replying (Inr ''{}'')) ''hi'' =
     (Inr (JNull, Some (apostrophe @ ''NoneType'' @ apostrophe @ '' object has no attribute '' @
                    apostrophe @ ''GenerativeModel'' @ apostrophe)), []) \<and>
   reply_fails (env_replying (Inl ''503 Service Unavailable''))
     (invoke_model (env_replying (Inl ''503 Service Unavailable''))
        (AI_MODEL (openai_config\<lparr>AI_PROVIDER := ''bedrock'', bedrock_client := True\<rparr>))
        (system_prompt @ newline @ ''User request:'' @ newline @ ''hi''))
     ''503 Service Unavailable'' \<and>
   call_ai_plan (openai_config\<lparr>AI_PROVIDER := ''bedrock'', bedrock_client := True\<rparr>)
       (env_replying (Inl ''503 Service Unavailable'')) ''hi'' =
     (Inr (JNull, Some ''503 Service Unavailable''), [ProviderCalled ''bedrock''])"
proof -
  have f1: "reply_fails (env_replying (Inl ''Request timed out.''))
     (chat_completions_create (env_replying (Inl ''Request timed out.''))
        (AI_MODEL openai_config) system_prompt ''hi'') ''Request timed out.''"
    by (simp add: reply_fails_def env_replying_def)
  have f2: "reply_fails (env_replying (Inr ''not json''))
     (generate_content (env_replying (Inr ''not json''))
        (AI_MODEL (openai_config\<lparr>AI_PROVIDER := ''gemini'', genai := True\<rparr>))
        (system_prompt @ newline @ ''User request:'' @ newline @ ''hi'' @ newline @
         ''Reply with JSON only.''))
     ''Expecting value: line 1 column 1 (char 0)''"
    by (simp add: reply_fails_def env_replying_def loads_sample_def)
  have f3: "reply_fails (env_replying (Inl ''503 Service Unavailable''))
     (invoke_model (env_replying (Inl ''503 Service Unavailable''))
        (AI_MODEL (openai_config\<lparr>AI_PROVIDER := ''bedrock'', bedrock_client := True\<rparr>))
        (system_prompt @ newline @ ''User request:'' @ newline @ ''hi''))
     ''503 Service Unavailable''"
    by (simp add: reply_fails_def env_replying_def)
  have c1: "AI_ENABLED openai_config \<and> AI_PROVIDER openai_config = ''openai'' \<and> client openai_config"
    by (simp add: openai_config_def)
  have c2: "AI_ENABLED (openai_config\<lparr>AI_PROVIDER := ''gemini'', genai := True\<rparr>) \<and>
            AI_PROVIDER (openai_config\<lparr>AI_PROVIDER := ''gemini'', genai := True\<rparr>) = ''gemini'' \<and>
            genai (openai_config\<lparr>AI_PROVIDER := ''gemini'', genai := True\<rparr>)"
    by (simp add: openai_config_def)
  have c3: "AI_ENABLED (openai_config\<lparr>AI_PROVIDER := ''gemini''\<rparr>) \<and>
            AI_PROVIDER (openai_config\<lparr>AI_PROVIDER := ''gemini''\<rparr>) = ''gemini'' \<and>
            \<not> genai (openai_config\<lparr>AI_PROVIDER := ''gemini''\<rparr>)"
    by (simp add: openai_config_def)
  have c4: "AI_ENABLED (openai_config\<lparr>AI_PROVIDER := ''bedrock'', bedrock_client := True\<rparr>) \<and>
            AI_PROVIDER (openai_config\<lparr>AI_PROVIDER := ''bedrock'', bedrock_client := True\<rparr>) = ''bedrock'' \<and>
            bedrock_client (openai_config\<lparr>AI_PROVIDER := ''bedrock'', bedrock_client := True\<rparr>)"
    by (simp add: openai_config_def)
  show ?thesis
    using f1 f2 f3 c1 c2 c3 c4
      call_ai_plan_catches [of openai_config "env_replying (Inl ''Request timed out.'')" "''hi''"]
      call_ai_plan_catches [of "openai_config\<lparr>AI_PROVIDER := ''gemini'', genai := True\<rparr>"
                               "env_replying (Inr ''not json'')" "''hi''"]
      call_ai_plan_catches [of "openai_config\<lparr>AI_PROVIDER := ''gemini''\<rparr>"
                               "env_replying (Inr ''{}'')" "''hi''"]
      call_ai_plan_catches [of "openai_config\<lparr>AI_PROVIDER := ''bedrock'', bedrock_client := True\<rparr>"
                               "env_replying (Inl ''503 Service Unavailable'')" "''hi''"]
    by (simp add: openai_config_def)
qed

section \<open>The request handler\<close>

lemma chat_respond_static:
  "chat_respond cfg mode (fallback_plan message file) False ai_error =
     Inr \<lparr>reply = ''Generated documentation for: '' @ message @
                   (if error_truthy ai_error
                    then newline @ ''AI fallback reason: '' @ error_text ai_error else []),
          files = file_urls,
          ai = \<lparr>enabled = AI_ENABLED cfg, provider = AI_PROVIDER cfg, model = AI_MODEL cfg,
                status = AI_STATUS_MSG cfg, mode_requested = mode, mode_used = ''static'',
                error = ai_error\<rparr>\<rparr>"
  by (simp add: chat_respond_def reply_lines_def fallback_plan_def)

lemma chat_respond_fields:
  "chat_respond cfg mode plan ai_used ai_error = Inr r \<Longrightarrow>
     mode_used (ai r) = (if ai_used then ''hybrid'' else ''static'') \<and> error (ai r) = ai_error \<and>
     mode_requested (ai r) = mode"
  by (auto simp: chat_respond_def bnd_def split: sum.splits)

lemma chat_other_modes:
  assumes "mode \<noteq> ''hybrid''"
  shows "chat cfg w message file mode =
     (case render_artifacts w (fallback_plan message file) message of
        Some e \<Rightarrow> Inl e
      | None \<Rightarrow>
          Inr \<lparr>reply = ''Generated documentation for: '' @ message,
               files = file_urls,
               ai = \<lparr>enabled = AI_ENABLED cfg, provider = AI_PROVIDER cfg, model = AI_MODEL cfg,
                     status = AI_STATUS_MSG cfg, mode_requested = mode, mode_used = ''static'',
                     error = None\<rparr>\<rparr>,
      [RendererCalled])"
  using assms
  by (simp add: chat_def chat_resolve_def chat_respond_static split: option.splits)

text \<open>
  Claim C10. For every mode string other than exactly \<^verbatim>\<open>hybrid\<close> the handler does
  what it does in static mode: the only call recorded is the rendering (neither the
  fetcher nor a provider is called), and when the rendering succeeds the response has
  \<^verbatim>\<open>mode_used\<close> \<^verbatim>\<open>static\<close>, \<^verbatim>\<open>error\<close> null and \<^verbatim>\<open>mode_requested\<close> the mode string as
  submitted.
\<close>

theorem other_modes_are_static:
  assumes "mode \<noteq> ''hybrid''"
  shows "chat cfg w message file mode =
     (case render_artifacts w (fallback_plan message file) message of
        Some e \<Rightarrow> Inl e
      | None \<Rightarrow>
          Inr \<lparr>reply = ''Generated documentation for: '' @ message,
               files = file_urls,
               ai = \<lparr>enabled = AI_ENABLED cfg, provider = AI_PROVIDER cfg, model = AI_MODEL cfg,
                     status = AI_STATUS_MSG cfg, mode_requested = mode, mode_used = ''static'',
                     error = None\<rparr>\<rparr>,
      [RendererCalled])"
  using assms by (rule chat_other_modes)

theorem other_modes_are_static_witness:
  "''HYBRID'' \<noteq> ''hybrid'' \<and>
   chat openai_config (env_replying (Inr ''{}'')) ''hi'' None ''HYBRID'' =
     (Inr \<lparr>reply = ''Generated documentation for: hi'',
           files = file_urls,
           ai = \<lparr>enabled = True, provider = ''openai'', model = ''gpt-4o-mini'',
                 status = ''OpenAI ready'', mode_requested = ''HYBRID'',
                 mode_used = ''static'', error = None\<rparr>\<rparr>,
      [RendererCalled])"
proof -
  have h: "''HYBRID'' \<noteq> ''hybrid''" by simp
  show ?thesis
    using h other_modes_are_static [OF h, of openai_config "env_replying (Inr ''{}'')" "''hi''" None]
    by (simp add: openai_config_def env_replying_def)
qed

lemma resolve_exclusive:
  assumes "chat_resolve cfg w message file mode = (Inr (plan, ai_used, ai_error), evs)"
  shows "ai_used \<longrightarrow> ai_error = None"
proof (cases "mode = ''hybrid''")
  case False
  with assms show ?thesis by (simp add: chat_resolve_def)
next
  case True
  obtain ai_plan err pevs where c: "call_ai_plan cfg w message = (Inr (ai_plan, err), pevs)"
    and t: "truthy ai_plan \<longrightarrow> err = None"
    using call_ai_plan_returns[of cfg w message] by blast
  show ?thesis
  proof (cases "truthy ai_plan")
    case False
    with assms True c show ?thesis by (simp add: chat_resolve_def)
  next
    case tr: True
    with assms True c t show ?thesis
      by (auto simp: chat_resolve_def bnd_def split: sum.splits)
  qed
qed

text \<open>
  Claim C7. In every execution of the handler \<^verbatim>\<open>ai_used\<close> and \<^verbatim>\<open>ai_error\<close> exclude each
  other: once the plan is resolved it is never the case that \<^verbatim>\<open>ai_used\<close> is true and
  \<^verbatim>\<open>ai_error\<close> is not \<^verbatim>\<open>None\<close>, the condition of the \<^verbatim>\<open>AI warning\<close> branch is false,
  the reply lines are those of a handler without that branch, and no response has
  \<^verbatim>\<open>mode_used\<close> \<^verbatim>\<open>hybrid\<close> together with an error.
\<close>

theorem ai_used_excludes_ai_error:
  "(\<forall>plan ai_used ai_error evs.
      chat_resolve cfg w message file mode = (Inr (plan, ai_used, ai_error), evs) \<longrightarrow>
        \<not> (ai_used \<and> ai_error \<noteq> None) \<and>
        \<not> (error_truthy ai_error \<and> \<not> (error_truthy ai_error \<and> \<not> ai_used)) \<and>
        reply_lines plan ai_used ai_error =
          bnd (subscript plan ''summary'') (\<lambda>summary.
            Inr ([summary] @
                 (if error_truthy ai_error
                  then [JString (''AI fallback reason: '' @ error_text ai_error)] else [])))) \<and>
   (\<forall>r evs. chat cfg w message file mode = (Inr r, evs) \<longrightarrow>
      \<not> (mode_used (ai r) = ''hybrid'' \<and> error (ai r) \<noteq> None))"
proof (intro conjI allI impI)
  fix plan ai_used ai_error evs
  assume a: "chat_resolve cfg w message file mode = (Inr (plan, ai_used, ai_error), evs)"
  then have x: "ai_used \<longrightarrow> ai_error = None" by (rule resolve_exclusive)
  then show "\<not> (ai_used \<and> ai_error \<noteq> None)" by blast
  from x show "\<not> (error_truthy ai_error \<and> \<not> (error_truthy ai_error \<and> \<not> ai_used))" by auto
  from x show "reply_lines plan ai_used ai_error =
          bnd (subscript plan ''summary'') (\<lambda>summary.
            Inr ([summary] @
                 (if error_truthy ai_error
                  then [JString (''AI fallback reason: '' @ error_text ai_error)] else [])))"
    by (cases ai_used) (auto simp: reply_lines_def)
next
  fix r evs
  assume c: "chat cfg w message file mode = (Inr r, evs)"
  obtain res revs where rs: "chat_resolve cfg w message file mode = (res, revs)"
    by (cases "chat_resolve cfg w message file mode")
  from c rs obtain plan ai_used ai_error where res: "res = Inr (plan, ai_used, ai_error)"
    and resp: "chat_respond cfg mode plan ai_used ai_error = Inr r"
    by (auto simp: chat_def split: sum.splits option.splits)
  from rs res have "ai_used \<longrightarrow> ai_error = None" using resolve_exclusive by blast
  moreover from resp have "mode_used (ai r) = (if ai_used then ''hybrid'' else ''static'')"
    and "error (ai r) = ai_error" using chat_respond_fields by blast+
  ultimately show "\<not> (mode_used (ai r) = ''hybrid'' \<and> error (ai r) \<noteq> None)" by auto
qed


theorem ai_used_excludes_ai_error_witness:
  "chat_resolve openai_config (env_replying (Inr ''{\"title\": \"T\"}'')) ''hi'' None ''hybrid'' =
     (Inr (titled_plan, True, None), [FetcherCalled ''hi'', ProviderCalled ''openai'']) \<and>
   (\<not> (True \<and> (None :: string option) \<noteq> None) \<and>
    \<not> (error_truthy None \<and> \<not> (error_truthy None \<and> \<not> True)) \<and>
    reply_lines titled_plan True None =
      bnd (subscript titled_plan ''summary'') (\<lambda>summary.
        Inr ([summary] @
             (if error_truthy None
              then [JString (''AI fallback reason: '' @ error_text None)] else []))))"
proof -
  have c: "call_ai_plan openai_config (env_replying (Inr ''{\"title\": \"T\"}'')) ''hi'' =
     (Inr (JObject [(''title'', JString ''T'')], None), [ProviderCalled ''openai''])"
    by (simp add: call_ai_plan_def call_ai_plan_try_def parse_reply_def openai_config_def
        env_replying_def loads_sample_def)
  have n: "normalize_plan (JObject [(''title'', JString ''T'')]) ''hi'' = Inr titled_plan"
    by (simp add: normalize_plan_def py_or_def Let_def titled_plan_def
        default_summary_def default_claims_def default_note_def)
  have r: "chat_resolve openai_config (env_replying (Inr ''{\"title\": \"T\"}'')) ''hi'' None ''hybrid'' =
     (Inr (titled_plan, True, None), [FetcherCalled ''hi'', ProviderCalled ''openai''])"
    using c n by (simp add: chat_resolve_def)
  have i: "\<not> (True \<and> (None :: string option) \<noteq> None) \<and>
    \<not> (error_truthy None \<and> \<not> (error_truthy None \<and> \<not> True)) \<and>
    reply_lines titled_plan True None =
      bnd (subscript titled_plan ''summary'') (\<lambda>summary.
        Inr ([summary] @
             (if error_truthy None
              then [JString (''AI fallback reason: '' @ error_text None)] else [])))"
    using r ai_used_excludes_ai_error
      [of openai_config "env_replying (Inr ''{\"title\": \"T\"}'')" "''hi''" None "''hybrid''"]
    by blast
  show ?thesis using r i by (rule conjI)
qed

text \<open>
  Claim C5. In static mode the handler calls neither the fetcher nor a provider: the
  rendering is the only call recorded. With the registry disabled the fetcher returns
  \<^verbatim>\<open>(None, AI_STATUS_MSG)\<close> without any provider call; in hybrid mode the handler then
  keeps the static plan and, when the rendering succeeds, the response reports the
  disabled reason as its error, with \<^verbatim>\<open>mode_used\<close> \<^verbatim>\<open>static\<close>.
\<close>

theorem static_skips_fetch_disabled_falls_back:
  "(mode = ''static'' \<longrightarrow> snd (chat cfg w message file mode) = [RendererCalled]) \<and>
   (\<not> AI_ENABLED cfg \<longrightarrow>
      call_ai_plan cfg w message = (Inr (JNull, Some (AI_STATUS_MSG cfg)), []) \<and>
      chat_resolve cfg w message file ''hybrid'' =
        (Inr (fallback_plan message file, False, Some (AI_STATUS_MSG cfg)), [FetcherCalled message]) \<and>
      (render_artifacts w (fallback_plan message file) message = None \<longrightarrow>
         chat cfg w message file ''hybrid'' =
           (Inr \<lparr>reply = ''Generated documentation for: '' @ message @
                         (if AI_STATUS_MSG cfg \<noteq> []
                          then newline @ ''AI fallback reason: '' @ AI_STATUS_MSG cfg else []),
                 files = file_urls,
                 ai = \<lparr>enabled = False, provider = AI_PROVIDER cfg, model = AI_MODEL cfg,
                       status = AI_STATUS_MSG cfg, mode_requested = ''hybrid'',
                       mode_used = ''static'', error = Some (AI_STATUS_MSG cfg)\<rparr>\<rparr>,
            [FetcherCalled message, RendererCalled])))"
proof (intro conjI impI)
  assume "mode = ''static''"
  then have "mode \<noteq> ''hybrid''" by simp
  then show "snd (chat cfg w message file mode) = [RendererCalled]"
    by (simp add: chat_other_modes)
next
  assume d: "\<not> AI_ENABLED cfg"
  then show c: "call_ai_plan cfg w message = (Inr (JNull, Some (AI_STATUS_MSG cfg)), [])"
    by (simp add: call_ai_plan_def)
  then show r: "chat_resolve cfg w message file ''hybrid'' =
        (Inr (fallback_plan message file, False, Some (AI_STATUS_MSG cfg)), [FetcherCalled message])"
    by (simp add: chat_resolve_def)
  assume "render_artifacts w (fallback_plan message file) message = None"
  then show "chat cfg w message file ''hybrid'' =
           (Inr \<lparr>reply = ''Generated documentation for: '' @ message @
                         (if AI_STATUS_MSG cfg \<noteq> []
                          then newline @ ''AI fallback reason: '' @ AI_STATUS_MSG cfg else []),
                 files = file_urls,
                 ai = \<lparr>enabled = False, provider = AI_PROVIDER cfg, model = AI_MODEL cfg,
                       status = AI_STATUS_MSG cfg, mode_requested = ''hybrid'',
                       mode_used = ''static'', error = Some (AI_STATUS_MSG cfg)\<rparr>\<rparr>,
            [FetcherCalled message, RendererCalled])"
    using r d by (simp add: chat_def chat_respond_static)
qed

theorem static_skips_fetch_disabled_falls_back_witness:
  "snd (chat static_config (env_replying (Inr ''{}'')) ''hi'' None ''static'') = [RendererCalled] \<and>
   \<not> AI_ENABLED static_config \<and>
   render_artifacts (env_replying (Inr ''{}'')) (fallback_plan ''hi'' None) ''hi'' = None \<and>
   call_ai_plan static_config (env_replying (Inr ''{}'')) ''hi'' =
     (Inr (JNull, Some ''No AI credentials found; running in static mode''), []) \<and>
   chat static_config (env_replying (Inr ''{}'')) ''hi'' None ''hybrid'' =
     (Inr \<lparr>reply = ''Generated documentation for: hi'' @ newline @
                   ''AI fallback reason: No AI credentials found; running in static mode'',
           files = file_urls,
           ai = \<lparr>enabled = False, provider = ''auto'', model = ''gpt-4o-mini'',
                 status = ''No AI credentials found; running in static mode'',
                 mode_requested = ''hybrid'', mode_used = ''static'',
                 error = Some ''No AI credentials found; running in static mode''\<rparr>\<rparr>,
      [FetcherCalled ''hi'', RendererCalled])"
proof -
  have d: "\<not> AI_ENABLED static_config" by (simp add: static_config_def)
  have r: "render_artifacts (env_replying (Inr ''{}'')) (fallback_plan ''hi'' None) ''hi'' = None"
    by (simp add: env_replying_def)
  show ?thesis
    using d r static_skips_fetch_disabled_falls_back
      [of "''static''" static_config "env_replying (Inr ''{}'')" "''hi''" None]
    by (simp add: static_config_def)
qed

text \<open>
  Claim C2, amended. In hybrid mode the handler always calls the fetcher, once and
  first, and the fetcher returns a pair. If the plan of the pair is truthy (not
  \<^verbatim>\<open>None\<close> and not empty), the error of the pair is \<^verbatim>\<open>None\<close> and the handler
  normalizes the plan: an exception of the normalizer leaves the handler; otherwise,
  when the rendering succeeds, the response is built from the normalized plan with
  \<^verbatim>\<open>ai_used\<close> true, so that \<^verbatim>\<open>mode_used\<close> is \<^verbatim>\<open>hybrid\<close> and \<^verbatim>\<open>error\<close> null. If the plan
  is \<^verbatim>\<open>None\<close> or empty, the handler keeps the static plan and, when the rendering
  succeeds, the response has \<^verbatim>\<open>mode_used\<close> \<^verbatim>\<open>static\<close> and \<^verbatim>\<open>error\<close> whatever error the
  fetcher returned.
\<close>

theorem hybrid_fetch_outcomes:
  "\<exists>ai_plan ai_error pevs.
     call_ai_plan cfg w message = (Inr (ai_plan, ai_error), pevs) \<and>
     (truthy ai_plan \<longrightarrow>
        ai_error = None \<and>
        (\<forall>e. normalize_plan ai_plan message = Inl e \<longrightarrow>
           chat cfg w message file ''hybrid'' = (Inl e, FetcherCalled message # pevs)) \<and>
        (\<forall>p. normalize_plan ai_plan message = Inr p \<longrightarrow>
           render_artifacts w p message = None \<longrightarrow>
           chat cfg w message file ''hybrid'' =
             (chat_respond cfg ''hybrid'' p True None,
              FetcherCalled message # pevs @ [RendererCalled]) \<and>
           (\<forall>r. chat_respond cfg ''hybrid'' p True None = Inr r \<longrightarrow>
              mode_used (ai r) = ''hybrid'' \<and> error (ai r) = None))) \<and>
     (\<not> truthy ai_plan \<longrightarrow>
        render_artifacts w (fallback_plan message file) message = None \<longrightarrow>
        chat cfg w message file ''hybrid'' =
          (Inr \<lparr>reply = ''Generated documentation for: '' @ message @
                        (if error_truthy ai_error
                         then newline @ ''AI fallback reason: '' @ error_text ai_error else []),
                files = file_urls,
                ai = \<lparr>enabled = AI_ENABLED cfg, provider = AI_PROVIDER cfg, model = AI_MODEL cfg,
                      status = AI_STATUS_MSG cfg, mode_requested = ''hybrid'',
                      mode_used = ''static'', error = ai_error\<rparr>\<rparr>,
           FetcherCalled message # pevs @ [RendererCalled]))"
proof -
  obtain ai_plan ai_error pevs where c: "call_ai_plan cfg w message = (Inr (ai_plan, ai_error), pevs)"
    and t: "truthy ai_plan \<longrightarrow> ai_error = None"
    using call_ai_plan_returns[of cfg w message] by blast
  have a: "truthy ai_plan \<Longrightarrow> normalize_plan ai_plan message = Inl e \<Longrightarrow>
           chat cfg w message file ''hybrid'' = (Inl e, FetcherCalled message # pevs)" for e
    using c by (simp add: chat_def chat_resolve_def)
  have b: "truthy ai_plan \<Longrightarrow> normalize_plan ai_plan message = Inr p \<Longrightarrow>
           render_artifacts w p message = None \<Longrightarrow>
           chat cfg w message file ''hybrid'' =
             (chat_respond cfg ''hybrid'' p True None,
              FetcherCalled message # pevs @ [RendererCalled])" for p
    using c t by (simp add: chat_def chat_resolve_def)
  have f: "chat_respond cfg ''hybrid'' p True None = Inr r \<Longrightarrow>
              mode_used (ai r) = ''hybrid'' \<and> error (ai r) = None" for p r
    using chat_respond_fields[of cfg "''hybrid''" p True None r] by simp
  have d: "\<not> truthy ai_plan \<Longrightarrow>
        render_artifacts w (fallback_plan message file) message = None \<Longrightarrow>
        chat cfg w message file ''hybrid'' =
          (Inr \<lparr>reply = ''Generated documentation for: '' @ message @
                        (if error_truthy ai_error
                         then newline @ ''AI fallback reason: '' @ error_text ai_error else []),
                files = file_urls,
                ai = \<lparr>enabled = AI_ENABLED cfg, provider = AI_PROVIDER cfg, model = AI_MODEL cfg,
                      status = AI_STATUS_MSG cfg, mode_requested = ''hybrid'',
                      mode_used = ''static'', error = ai_error\<rparr>\<rparr>,
           FetcherCalled message # pevs @ [RendererCalled])"
    using c by (simp add: chat_def chat_resolve_def chat_respond_static)
  have "call_ai_plan cfg w message = (Inr (ai_plan, ai_error), pevs) \<and>
     (truthy ai_plan \<longrightarrow>
        ai_error = None \<and>
        (\<forall>e. normalize_plan ai_plan message = Inl e \<longrightarrow>
           chat cfg w message file ''hybrid'' = (Inl e, FetcherCalled message # pevs)) \<and>
        (\<forall>p. normalize_plan ai_plan message = Inr p \<longrightarrow>
           render_artifacts w p message = None \<longrightarrow>
           chat cfg w message file ''hybrid'' =
             (chat_respond cfg ''hybrid'' p True None,
              FetcherCalled message # pevs @ [RendererCalled]) \<and>
           (\<forall>r. chat_respond cfg ''hybrid'' p True None = Inr r \<longrightarrow>
              mode_used (ai r) = ''hybrid'' \<and> error (ai r) = None))) \<and>
     (\<not> truthy ai_plan \<longrightarrow>
        render_artifacts w (fallback_plan message file) message = None \<longrightarrow>
        chat cfg w message file ''hybrid'' =
          (Inr \<lparr>reply = ''Generated documentation for: '' @ message @
                        (if error_truthy ai_error
                         then newline @ ''AI fallback reason: '' @ error_text ai_error else []),
                files = file_urls,
                ai = \<lparr>enabled = AI_ENABLED cfg, provider = AI_PROVIDER cfg, model = AI_MODEL cfg,
                      status = AI_STATUS_MSG cfg, mode_requested = ''hybrid'',
                      mode_used = ''static'', error = ai_error\<rparr>\<rparr>,
           FetcherCalled message # pevs @ [RendererCalled]))"
  proof (intro conjI impI allI)
    show "call_ai_plan cfg w message = (Inr (ai_plan, ai_error), pevs)" by (rule c)
  next
    assume "truthy ai_plan" then show "ai_error = None" using t by simp
  next
    fix e assume "truthy ai_plan" "normalize_plan ai_plan message = Inl e"
    then show "chat cfg w message file ''hybrid'' = (Inl e, FetcherCalled message # pevs)"
      by (rule a)
  next
    fix p assume "truthy ai_plan" "normalize_plan ai_plan message = Inr p"
      "render_artifacts w p message = None"
    then show "chat cfg w message file ''hybrid'' =
             (chat_respond cfg ''hybrid'' p True None,
              FetcherCalled message # pevs @ [RendererCalled])" by (rule b)
  next
    fix p r assume "chat_respond cfg ''hybrid'' p True None = Inr r"
    then show "mode_used (ai r) = ''hybrid''" using f by blast
  next
    fix p r assume "chat_respond cfg ''hybrid'' p True None = Inr r"
    then show "error (ai r) = None" using f by blast
  next
    assume "\<not> truthy ai_plan" "render_artifacts w (fallback_plan message file) message = None"
    then show "chat cfg w message file ''hybrid'' =
          (Inr \<lparr>reply = ''Generated documentation for: '' @ message @
                        (if error_truthy ai_error
                         then newline @ ''AI fallback reason: '' @ error_text ai_error else []),
                files = file_urls,
                ai = \<lparr>enabled = AI_ENABLED cfg, provider = AI_PROVIDER cfg, model = AI_MODEL cfg,
                      status = AI_STATUS_MSG cfg, mode_requested = ''hybrid'',
                      mode_used = ''static'', error = ai_error\<rparr>\<rparr>,
           FetcherCalled message # pevs @ [RendererCalled])" by (rule d)
  qed
  then show ?thesis by - (rule exI, rule exI, rule exI, assumption)
qed

theorem hybrid_fetch_outcomes_witness:
  "call_ai_plan openai_config (env_replying (Inr ''{\"title\": \"T\"}'')) ''hi'' =
     (Inr (JObject [(''title'', JString ''T'')], None), [ProviderCalled ''openai'']) \<and>
   truthy (JObject [(''title'', JString ''T'')]) \<and>
   normalize_plan (JObject [(''title'', JString ''T'')]) ''hi'' = Inr titled_plan \<and>
   render_artifacts (env_replying (Inr ''{\"title\": \"T\"}'')) titled_plan ''hi'' = None \<and>
   chat openai_config (env_replying (Inr ''{\"title\": \"T\"}'')) ''hi'' None ''hybrid'' =
     (chat_respond openai_config ''hybrid'' titled_plan True None,
      [FetcherCalled ''hi'', ProviderCalled ''openai'', RendererCalled])"
proof -
  have c: "call_ai_plan openai_config (env_replying (Inr ''{\"title\": \"T\"}'')) ''hi'' =
     (Inr (JObject [(''title'', JString ''T'')], None), [ProviderCalled ''openai''])"
    by (simp add: call_ai_plan_def call_ai_plan_try_def parse_reply_def openai_config_def
        env_replying_def loads_sample_def)
  have t: "truthy (JObject [(''title'', JString ''T'')])" by simp
  have n: "normalize_plan (JObject [(''title'', JString ''T'')]) ''hi'' = Inr titled_plan"
    by (simp add: normalize_plan_def py_or_def Let_def titled_plan_def
        default_summary_def default_claims_def default_note_def)
  have r: "render_artifacts (env_replying (Inr ''{\"title\": \"T\"}'')) titled_plan ''hi'' = None"
    by (simp add: env_replying_def)
  obtain ai_plan ai_error pevs where
    c': "call_ai_plan openai_config (env_replying (Inr ''{\"title\": \"T\"}'')) ''hi'' =
           (Inr (ai_plan, ai_error), pevs)" and
    h: "truthy ai_plan \<longrightarrow>
        (\<forall>p. normalize_plan ai_plan ''hi'' = Inr p \<longrightarrow>
           render_artifacts (env_replying (Inr ''{\"title\": \"T\"}'')) p ''hi'' = None \<longrightarrow>
           chat openai_config (env_replying (Inr ''{\"title\": \"T\"}'')) ''hi'' None ''hybrid'' =
             (chat_respond openai_config ''hybrid'' p True None,
              FetcherCalled ''hi'' # pevs @ [RendererCalled]))"
    using hybrid_fetch_outcomes
      [of openai_config "env_replying (Inr ''{\"title\": \"T\"}'')" "''hi''" None]
    by blast
  from c c' have e: "ai_plan = JObject [(''title'', JString ''T'')]" "pevs = [ProviderCalled ''openai'']"
    by simp_all
  from h t n r have "chat openai_config (env_replying (Inr ''{\"title\": \"T\"}'')) ''hi'' None ''hybrid'' =
     (chat_respond openai_config ''hybrid'' titled_plan True None,
      [FetcherCalled ''hi'', ProviderCalled ''openai'', RendererCalled])"
    unfolding e by simp
  with c t n r show ?thesis by blast
qed

text \<open>
  The provider answers \<^verbatim>\<open>{}\<close>: the fetcher returns the empty \<^verbatim>\<open>dict\<close>, a plan that is
  not \<^verbatim>\<open>None\<close>, with no error, and the handler answers from the static plan.
\<close>

theorem empty_object_stays_static:
  "call_ai_plan openai_config (env_replying (Inr ''{}'')) ''hi'' =
     (Inr (JObject [], None), [ProviderCalled ''openai'']) \<and>
   chat openai_config (env_replying (Inr ''{}'')) ''hi'' None ''hybrid'' =
     (Inr \<lparr>reply = ''Generated documentation for: hi'',
           files = file_urls,
           ai = \<lparr>enabled = True, provider = ''openai'', model = ''gpt-4o-mini'',
                 status = ''OpenAI ready'', mode_requested = ''hybrid'',
                 mode_used = ''static'', error = None\<rparr>\<rparr>,
      [FetcherCalled ''hi'', ProviderCalled ''openai'', RendererCalled])"
proof -
  have c: "call_ai_plan openai_config (env_replying (Inr ''{}'')) ''hi'' =
     (Inr (JObject [], None), [ProviderCalled ''openai''])"
    by (simp add: call_ai_plan_def call_ai_plan_try_def parse_reply_def openai_config_def
        env_replying_def loads_sample_def)
  have "chat openai_config (env_replying (Inr ''{}'')) ''hi'' None ''hybrid'' =
     (chat_respond openai_config ''hybrid'' (fallback_plan ''hi'' None) False None,
      [FetcherCalled ''hi'', ProviderCalled ''openai'', RendererCalled])"
    using c by (simp add: chat_def chat_resolve_def env_replying_def)
  then show ?thesis using c by (simp add: chat_respond_static openai_config_def)
qed


end
